theory Spec2Isabelle
  imports Main "HOL-Library.Sublist"
begin

section \<open>The extraction front-end of plaso\<close>

text \<open>
  A shallow embedding of \<^verbatim>\<open>plaso/frontend/extraction_frontend.py\<close>
  (class \<^verbatim>\<open>ExtractionFrontend\<close>). Python values of type \<^verbatim>\<open>Optional[str]\<close> are
  \<open>string option\<close>; the truth value Python gives them in a condition is \<open>truthy\<close>.
  The source is Python 2 code (\<^verbatim>\<open>u''\<close> literals, \<^verbatim>\<open>super(ExtractionFrontend, self)\<close>).
  Strings are lists of \<open>char\<close>, and \<^verbatim>\<open>lower()\<close> is modelled on the letters A to Z.
  A method that raises returns the exception as a value, together with the front-end it
  leaves behind.
\<close>

subsection \<open>Python strings\<close>

definition truthy :: "string option \<Rightarrow> bool" where
  \<comment> \<open>\<^verbatim>\<open>if value:\<close> for a value that is None or a string: None and the empty string are false.\<close>
  "truthy v = (case v of None \<Rightarrow> False | Some s \<Rightarrow> s \<noteq> [])"

definition lower_char :: "char \<Rightarrow> char" where
  \<comment> \<open>\<^verbatim>\<open>lower()\<close> on one character: the letters A-Z go to a-z, every other byte stays.\<close>
  "lower_char c =
     (let n = (of_char c :: nat) in if 65 \<le> n \<and> n \<le> 90 then char_of (n + 32) else c)"

definition lower :: "string \<Rightarrow> string" where
  \<comment> \<open>\<^verbatim>\<open>os_version.lower()\<close>\<close>
  "lower s = map lower_char s"

fun startswith :: "string \<Rightarrow> string \<Rightarrow> bool" where
  \<comment> \<open>\<open>startswith needle s\<close>: \<open>s\<close> begins with \<open>needle\<close>.\<close>
  "startswith [] s = True"
| "startswith (n # ns) [] = False"
| "startswith (n # ns) (c # cs) = (n = c \<and> startswith ns cs)"

fun str_contains :: "string \<Rightarrow> string \<Rightarrow> bool" where
  \<comment> \<open>Python's \<^verbatim>\<open>needle in s\<close> on strings: \<open>needle\<close> occurs in \<open>s\<close> as a contiguous run.\<close>
  "str_contains needle [] = (needle = [])"
| "str_contains needle (c # cs) = (startswith needle (c # cs) \<or> str_contains needle cs)"

definition matches_ci :: "string \<Rightarrow> string \<Rightarrow> bool" where
  \<comment> \<open>The spec's "case-insensitive match": some contiguous part of \<open>s\<close> equals \<open>needle\<close>
      up to the case of its letters.\<close>
  "matches_ci needle s = (\<exists>u. sublist u s \<and> lower u = lower needle)"

subsection \<open>Operating system identifiers\<close>

text \<open>
  Modelled from the spec: the constants \<^verbatim>\<open>OS_LINUX\<close>, \<^verbatim>\<open>OS_MACOSX\<close> and \<^verbatim>\<open>OS_WINDOWS\<close> of
  \<^verbatim>\<open>plaso.lib.definitions\<close>, which is not among the sources. The spec names the
  enumerated OS identifiers Linux, MacOSX and Windows.
\<close>

definition OS_LINUX :: string where
  "OS_LINUX = ''Linux''"

definition OS_MACOSX :: string where
  "OS_MACOSX = ''MacOSX''"

definition OS_WINDOWS :: string where
  "OS_WINDOWS = ''Windows''"

subsection \<open>The parser filter preset\<close>

definition GetParserFilterPreset :: "string option \<Rightarrow> string option \<Rightarrow> string option" where
  \<comment> \<open>\<^verbatim>\<open>_GetParserFilterPreset(self, os_guess=u'', os_version=u'')\<close>. The local variable
      \<^verbatim>\<open>parser_filter_preset\<close> is threaded through the two \<^verbatim>\<open>if\<close> statements.\<close>
  "GetParserFilterPreset os_guess os_version =
     (let parser_filter_preset = None;
          parser_filter_preset =
            (if \<not> truthy parser_filter_preset \<and> truthy os_version then
               (case os_version of
                  None \<Rightarrow> parser_filter_preset
                | Some v \<Rightarrow>
                    (let os_version = lower v in
                     if str_contains ''windows xp'' os_version then Some ''winxp''
                     else if str_contains ''windows server 2000'' os_version then Some ''winxp''
                     else if str_contains ''windows server 2003'' os_version then Some ''winxp''
                     else if str_contains ''windows'' os_version then Some ''win7''
                     else parser_filter_preset))
             else parser_filter_preset);
          parser_filter_preset =
            (if \<not> truthy parser_filter_preset \<and> truthy os_guess then
               (if os_guess = Some OS_LINUX then Some ''linux''
                else if os_guess = Some OS_MACOSX then Some ''macosx''
                else if os_guess = Some OS_WINDOWS then Some ''win7''
                else parser_filter_preset)
             else parser_filter_preset)
      in parser_filter_preset)"

subsection \<open>Exceptions, logging and the collaborators\<close>

text \<open>
  An exception is its class and its message. \<open>IOError\<close> and \<open>ValueError\<close> stand for every
  exception that \<^verbatim>\<open>except IOError\<close> and \<^verbatim>\<open>except ValueError\<close> catch, \<open>OtherException\<close> for
  every class the front-end has no handler for. A log message formatted from strings
  is the concatenation. A log message formatted from an exception object,
  \<^verbatim>\<open>u'{0:s}'.format(exception)\<close>, can raise: in Python 2.7 \<^verbatim>\<open>unicode(exception)\<close> raises a
  \<^verbatim>\<open>UnicodeDecodeError\<close> (a \<open>ValueError\<close>) for a message that is a byte string with a
  non-ASCII byte, and in Python 3 the format specification \<^verbatim>\<open>s\<close> is refused with a
  \<open>TypeError\<close> for every exception. The outcome is the collaborator \<open>format_exception\<close>.
\<close>

datatype exception_class =
  BadConfigOption | IOError | ValueError | TypeError | AttributeError | OtherException

datatype exception = Exception (class_of: exception_class) (message: string)

datatype level = DEBUG | INFO | WARNING | ERROR

type_synonym path_spec = string

type_synonym find_spec = string

datatype resolver_context = Context

datatype processing_status = ProcessingStatus nat

text \<open>
  Modelled from the spec: the knowledge base of \<^verbatim>\<open>plaso.engine.knowledge_base\<close>, which is
  not among the sources: "a mutable key/value store of environment facts: OS guess, OS
  version, timezone, path attributes". \<open>platform\<close> is the OS guess, \<open>GetValue\<close> reads a
  stored value (None when there is none), \<open>timezone_zone\<close> is \<^verbatim>\<open>timezone.zone\<close>.
\<close>

record knowledge_base =
  platform :: "string option"
  stored_values :: "(string \<times> string) list"
  timezone_zone :: string
  path_attributes :: "(string \<times> string) list"

definition GetValue :: "knowledge_base \<Rightarrow> string \<Rightarrow> string option" where
  "GetValue kb identifier = map_of (stored_values kb) identifier"

definition GetPathAttributes :: "knowledge_base \<Rightarrow> (string \<times> string) list" where
  "GetPathAttributes kb = path_attributes kb"

datatype engine_class = SingleProcessEngine | MultiProcessEngine

record engine =
  engine_class :: engine_class
  debug_output :: bool
  enable_profiling :: bool
  profiling_directory :: "string option"
  profiling_sample_rate :: int
  profiling_type :: string
  use_zeromq :: "bool option"
  knowledge_base :: knowledge_base

text \<open>
  The session attribute container; its attribute \<^verbatim>\<open>identifier\<close> is \<open>session_identifier\<close>
  here.
\<close>

record session =
  session_identifier :: string
  command_line_arguments :: "string option"
  enabled_parser_names :: "string list"
  filter_expression :: "string option"
  filter_file :: "string option"
  debug_mode :: bool
  parser_filter_expression :: "string option"
  preferred_encoding :: "string option"
  preferred_year :: "int option"

datatype storage_writer =
  ZIPStorageFileWriter (writer_session: session) (writer_path: "string option")

text \<open>
  One call of \<^verbatim>\<open>self._engine.ProcessSources\<close>: the engine that receives it and the
  arguments. The arguments only the multi-process call passes are None in the
  single-process call, and the resolver context is passed by the single-process call only.
\<close>

record dispatch =
  d_engine :: engine
  d_session_identifier :: "string option"
  d_source_path_specs :: "path_spec list"
  d_storage_writer :: storage_writer
  d_resolver_context :: "resolver_context option"
  d_enable_sigsegv_handler :: "bool option"
  d_filter_find_specs :: "find_spec list option"
  d_filter_object :: "string option"
  d_hasher_names_string :: "string option"
  d_mount_path :: "string option"
  d_number_of_worker_processes :: "int option"
  d_parser_filter_expression :: "string option"
  d_preferred_year :: "int option"
  d_process_archive_files :: bool
  d_status_update_callback :: "string option"
  d_show_memory_usage :: "bool option"
  d_temporary_directory :: "string option"
  d_text_prepend :: "string option"

text \<open>
  What the front-end calls and does not define: the file system (\<^verbatim>\<open>os.path\<close>,
  \<^verbatim>\<open>os.access\<close>), the engine, its knowledge base, the parser and hasher registries and
  \<^verbatim>\<open>engine_utils\<close>. An engine operation that changes the knowledge base returns the
  knowledge base it leaves behind and the exception it raised, if any.
  \<open>format_exception e\<close> is the outcome of \<^verbatim>\<open>u'{0:s}'.format(exception)\<close>: the text, or the
  exception the formatting raises.
\<close>

record collaborators =
  os_path_exists :: "string \<Rightarrow> bool"
  os_path_isfile :: "string \<Rightarrow> bool"
  os_path_dirname :: "string \<Rightarrow> string"
  os_access_W_OK :: "string \<Rightarrow> bool"
  new_knowledge_base :: knowledge_base
  new_session_identifier :: string
  engine_PreprocessSources ::
    "path_spec list \<Rightarrow> knowledge_base \<Rightarrow> knowledge_base \<times> exception option"
  knowledge_base_SetTimezone ::
    "string \<Rightarrow> knowledge_base \<Rightarrow> knowledge_base \<times> exception option"
  engine_ProcessSources :: "dispatch \<Rightarrow> exception + processing_status"
  GetParsers :: "string option \<Rightarrow> exception + (string \<times> string) list"
  GetParserAndPluginNames :: "string option \<Rightarrow> exception + string list"
  GetHasherNamesFromString :: "string option \<Rightarrow> exception + string list"
  BuildFindSpecsFromFile ::
    "string \<Rightarrow> (string \<times> string) list \<Rightarrow> exception + find_spec list"
  format_exception :: "exception \<Rightarrow> exception + string"

datatype effect =
    Logging level string
  | Call_PreprocessSources "path_spec list"
  | Call_SetTimezone string
  | Call_ProcessSources dispatch

subsection \<open>The front-end object\<close>

text \<open>
  The attributes of \<^verbatim>\<open>ExtractionFrontend\<close>, \<^verbatim>\<open>self._debug_mode\<close> as \<open>fe_debug_mode\<close> and so
  on. \<open>effects\<close> is not an attribute: it collects, in order, what the methods log and
  which calls they make to the engine.
\<close>

record frontend =
  fe_collection_process :: "string option"
  fe_debug_mode :: bool
  fe_enable_profiling :: bool
  fe_engine :: "engine option"
  fe_filter_expression :: "string option"
  fe_filter_object :: "string option"
  fe_hasher_names :: "string list"
  fe_mount_path :: "string option"
  fe_parser_names :: "string list option"
  fe_profiling_directory :: "string option"
  fe_profiling_sample_rate :: int
  fe_profiling_type :: string
  fe_use_zeromq :: bool
  fe_resolver_context :: resolver_context
  fe_show_worker_memory_information :: bool
  fe_storage_file_path :: "string option"
  fe_text_prepend :: "string option"
  effects :: "effect list"

definition DEFAULT_PROFILING_SAMPLE_RATE :: int where
  "DEFAULT_PROFILING_SAMPLE_RATE = 1000"

text \<open>
  The source types of \<^verbatim>\<open>dfvfs.lib.definitions\<close> are strings.
\<close>

definition SOURCE_TYPE_DIRECTORY :: string where
  "SOURCE_TYPE_DIRECTORY = ''directory''"

definition SOURCE_TYPE_FILE :: string where
  "SOURCE_TYPE_FILE = ''file''"

definition SOURCE_TYPE_STORAGE_MEDIA_DEVICE :: string where
  "SOURCE_TYPE_STORAGE_MEDIA_DEVICE = ''storage media device''"

definition SOURCE_TYPE_STORAGE_MEDIA_IMAGE :: string where
  "SOURCE_TYPE_STORAGE_MEDIA_IMAGE = ''storage media image''"

definition SOURCE_TYPES_TO_PREPROCESS :: "string set" where
  "SOURCE_TYPES_TO_PREPROCESS =
     {SOURCE_TYPE_DIRECTORY, SOURCE_TYPE_STORAGE_MEDIA_DEVICE, SOURCE_TYPE_STORAGE_MEDIA_IMAGE}"

definition init :: frontend where
  \<comment> \<open>\<^verbatim>\<open>__init__\<close>\<close>
  "init =
     \<lparr>fe_collection_process = None,
      fe_debug_mode = False,
      fe_enable_profiling = False,
      fe_engine = None,
      fe_filter_expression = None,
      fe_filter_object = None,
      fe_hasher_names = [],
      fe_mount_path = None,
      fe_parser_names = None,
      fe_profiling_directory = None,
      fe_profiling_sample_rate = DEFAULT_PROFILING_SAMPLE_RATE,
      fe_profiling_type = ''all'',
      fe_use_zeromq = True,
      fe_resolver_context = Context,
      fe_show_worker_memory_information = False,
      fe_storage_file_path = None,
      fe_text_prepend = None,
      effects = []\<rparr>"

definition logging :: "level \<Rightarrow> string \<Rightarrow> frontend \<Rightarrow> frontend" where
  \<comment> \<open>\<^verbatim>\<open>logging.debug\<close>, \<^verbatim>\<open>logging.info\<close>, \<^verbatim>\<open>logging.warning\<close>, \<^verbatim>\<open>logging.error\<close>\<close>
  "logging l m fe = fe\<lparr>effects := effects fe @ [Logging l m]\<rparr>"

definition CheckStorageFile ::
  "collaborators \<Rightarrow> frontend \<Rightarrow> string option \<Rightarrow> frontend \<times> exception option" where
  \<comment> \<open>\<^verbatim>\<open>_CheckStorageFile\<close>. \<^verbatim>\<open>os.path.exists(None)\<close> raises TypeError.\<close>
  "CheckStorageFile c fe storage_file_path =
     (case storage_file_path of
        None \<Rightarrow> (fe, Some (Exception TypeError ''coercing to Unicode: need string or buffer''))
      | Some p \<Rightarrow>
          if os_path_exists c p \<and> \<not> os_path_isfile c p then
            (fe, Some (Exception BadConfigOption
               (''Storage file: '' @ p @ '' already exists and is not a file.'')))
          else
            (let fe = (if os_path_exists c p
                       then logging WARNING ''Appending to an already existing storage file.'' fe
                       else fe);
                 dirname = os_path_dirname c p;
                 dirname = (if dirname = [] then ''.'' else dirname)
             in if \<not> os_access_W_OK c dirname then
                  (fe, Some (Exception BadConfigOption (''Unable to write to storage file: '' @ p)))
                else (fe, None)))"

definition CreateEngine :: "collaborators \<Rightarrow> frontend \<Rightarrow> bool \<Rightarrow> engine" where
  \<comment> \<open>\<^verbatim>\<open>_CreateEngine\<close>. A new engine carries a new knowledge base.\<close>
  "CreateEngine c fe single_process_mode =
     (if single_process_mode then
        \<lparr>engine_class = SingleProcessEngine,
         debug_output = fe_debug_mode fe,
         enable_profiling = fe_enable_profiling fe,
         profiling_directory = fe_profiling_directory fe,
         profiling_sample_rate = fe_profiling_sample_rate fe,
         profiling_type = fe_profiling_type fe,
         use_zeromq = None,
         knowledge_base = new_knowledge_base c\<rparr>
      else
        \<lparr>engine_class = MultiProcessEngine,
         debug_output = fe_debug_mode fe,
         enable_profiling = fe_enable_profiling fe,
         profiling_directory = fe_profiling_directory fe,
         profiling_sample_rate = fe_profiling_sample_rate fe,
         profiling_type = fe_profiling_type fe,
         use_zeromq = Some (fe_use_zeromq fe),
         knowledge_base = new_knowledge_base c\<rparr>)"

definition CreateSession ::
  "collaborators \<Rightarrow> frontend \<Rightarrow> string option \<Rightarrow> string option \<Rightarrow> string option \<Rightarrow>
   string option \<Rightarrow> int option \<Rightarrow> exception + session" where
  \<comment> \<open>\<^verbatim>\<open>_CreateSession\<close>\<close>
  "CreateSession c fe command_line_arguments' filter_file' parser_filter_expression'
       preferred_encoding' preferred_year' =
     (case GetParserAndPluginNames c parser_filter_expression' of
        Inl e \<Rightarrow> Inl e
      | Inr parser_and_plugin_names \<Rightarrow>
          Inr \<lparr>session_identifier = new_session_identifier c,
               command_line_arguments = command_line_arguments',
               enabled_parser_names = parser_and_plugin_names,
               filter_expression = fe_filter_expression fe,
               filter_file = filter_file',
               debug_mode = fe_debug_mode fe,
               parser_filter_expression = parser_filter_expression',
               preferred_encoding = preferred_encoding',
               preferred_year = preferred_year'\<rparr>)"

definition PreprocessSources ::
  "collaborators \<Rightarrow> frontend \<Rightarrow> path_spec list \<Rightarrow> frontend \<times> exception option" where
  \<comment> \<open>\<^verbatim>\<open>_PreprocessSources\<close>. The message of the error log is formatted inside the handler
      \<^verbatim>\<open>except IOError\<close>, so an exception the formatting raises leaves the method.\<close>
  "PreprocessSources c fe source_path_specs =
     (let fe = logging DEBUG ''Starting preprocessing.'' fe in
      case fe_engine fe of
        None \<Rightarrow> (fe, Some (Exception AttributeError ''PreprocessSources''))
      | Some eng \<Rightarrow>
          (case engine_PreprocessSources c source_path_specs (knowledge_base eng) of
             (kb, raised) \<Rightarrow>
               (let fe = fe\<lparr>fe_engine := Some (eng\<lparr>knowledge_base := kb\<rparr>),
                            effects := effects fe @ [Call_PreprocessSources source_path_specs]\<rparr>
                in case raised of
                     Some e \<Rightarrow>
                       if class_of e = IOError then
                         (case format_exception c e of
                            Inl x \<Rightarrow> (fe, Some x)
                          | Inr formatted \<Rightarrow>
                              (logging ERROR (''Unable to preprocess with error: '' @ formatted) fe,
                               None))
                       else (fe, Some e)
                   | None \<Rightarrow> (logging DEBUG ''Preprocessing done.'' fe, None))))"

definition SetTimezone ::
  "collaborators \<Rightarrow> frontend \<Rightarrow> string option \<Rightarrow> frontend \<times> exception option" where
  \<comment> \<open>\<^verbatim>\<open>_SetTimezone\<close>\<close>
  "SetTimezone c fe timezone =
     (case fe_engine fe of
        None \<Rightarrow> (fe, Some (Exception AttributeError ''knowledge_base''))
      | Some eng \<Rightarrow>
          (let time_zone_str = GetValue (knowledge_base eng) ''time_zone_str'';
               default_timezone = (if truthy time_zone_str then time_zone_str else timezone);
               default_timezone =
                 (case default_timezone of
                    None \<Rightarrow> ''UTC''
                  | Some z \<Rightarrow> if z = [] then ''UTC'' else z);
               fe = logging INFO (''Setting timezone to: '' @ default_timezone) fe
           in case knowledge_base_SetTimezone c default_timezone (knowledge_base eng) of
                (kb, raised) \<Rightarrow>
                  (let fe = fe\<lparr>fe_engine := Some (eng\<lparr>knowledge_base := kb\<rparr>),
                               effects := effects fe @ [Call_SetTimezone default_timezone]\<rparr>
                   in case raised of
                        Some e \<Rightarrow>
                          if class_of e = ValueError then
                            (logging WARNING
                               (''Unsupported time zone: '' @ default_timezone
                                  @ '', defaulting to '' @ timezone_zone kb) fe,
                             None)
                          else (fe, Some e)
                      | None \<Rightarrow> (fe, None))))"

subsection \<open>Processing the sources\<close>

text \<open>
  The parameters of \<^verbatim>\<open>ProcessSources\<close>, \<^verbatim>\<open>source_type\<close> as \<open>arg_source_type\<close> and so on.
\<close>

record arguments =
  arg_source_path_specs :: "path_spec list"
  arg_source_type :: string
  arg_command_line_arguments :: "string option"
  arg_enable_sigsegv_handler :: bool
  arg_filter_file :: "string option"
  arg_force_preprocessing :: bool
  arg_hasher_names_string :: "string option"
  arg_number_of_extraction_workers :: int
  arg_parser_filter_expression :: "string option"
  arg_preferred_encoding :: "string option"
  arg_preferred_year :: "int option"
  arg_process_archive_files :: bool
  arg_single_process_mode :: bool
  arg_status_update_callback :: "string option"
  arg_temporary_directory :: "string option"
  arg_timezone :: "string option"

definition ProcessSources ::
  "collaborators \<Rightarrow> frontend \<Rightarrow> arguments \<Rightarrow> frontend \<times> (exception + processing_status)" where
  \<comment> \<open>\<^verbatim>\<open>ProcessSources\<close>: the front-end it leaves behind, and the exception it raises or
      the processing status it returns. \<open>derive\<close> is the outcome of the test
      \<^verbatim>\<open>if not parser_filter_expression\<close>, inside which the preset is derived and logged.
      \<^verbatim>\<open>self._engine\<close> is read where the knowledge base is; it was assigned above, so the
      branches for None are never taken.\<close>
  "ProcessSources c fe a =
     (case CheckStorageFile c fe (fe_storage_file_path fe) of
        (fe, Some e) \<Rightarrow> (fe, Inl e)
      | (fe, None) \<Rightarrow>
     (let single_process_mode =
            (if arg_source_type a = SOURCE_TYPE_FILE then True else arg_single_process_mode a);
          fe = fe\<lparr>fe_engine := Some (CreateEngine c fe single_process_mode)\<rparr>
      in
      case (if arg_force_preprocessing a \<or> arg_source_type a \<in> SOURCE_TYPES_TO_PREPROCESS
            then PreprocessSources c fe (arg_source_path_specs a)
            else (fe, None)) of
        (fe, Some e) \<Rightarrow> (fe, Inl e)
      | (fe, None) \<Rightarrow>
     (case fe_engine fe of
        None \<Rightarrow> (fe, Inl (Exception AttributeError ''knowledge_base''))
      | Some eng \<Rightarrow>
     (let derive = (\<not> truthy (arg_parser_filter_expression a));
          parser_filter_expression =
            (if derive then
               (let guessed_os = platform (knowledge_base eng);
                    os_version = GetValue (knowledge_base eng) ''osversion''
                in GetParserFilterPreset guessed_os os_version)
             else arg_parser_filter_expression a);
          fe = (if derive then
                  (case parser_filter_expression of
                     None \<Rightarrow> fe
                   | Some p \<Rightarrow>
                       if p = [] then fe
                       else logging INFO (''Parser filter expression changed to: '' @ p) fe)
                else fe);
          fe = fe\<lparr>fe_parser_names := Some []\<rparr>
      in
      case GetParsers c parser_filter_expression of
        Inl e \<Rightarrow> (fe, Inl e)
      | Inr parsers \<Rightarrow>
     (let fe = fe\<lparr>fe_parser_names := Some (map snd parsers)\<rparr>;
          fe = fe\<lparr>fe_hasher_names := []\<rparr>
      in
      case GetHasherNamesFromString c (arg_hasher_names_string a) of
        Inl e \<Rightarrow> (fe, Inl e)
      | Inr hasher_names \<Rightarrow>
     (let fe = fe\<lparr>fe_hasher_names := hasher_names\<rparr> in
      case SetTimezone c fe (arg_timezone a) of
        (fe, Some e) \<Rightarrow> (fe, Inl e)
      | (fe, None) \<Rightarrow>
     (case fe_engine fe of
        None \<Rightarrow> (fe, Inl (Exception AttributeError ''knowledge_base''))
      | Some eng \<Rightarrow>
     (case (case arg_filter_file a of
              None \<Rightarrow> Inr None
            | Some f \<Rightarrow>
                if f = [] then Inr None
                else (let path_attributes = GetPathAttributes (knowledge_base eng) in
                      case BuildFindSpecsFromFile c f path_attributes of
                        Inl e \<Rightarrow> Inl e
                      | Inr specs \<Rightarrow> Inr (Some specs))) of
        Inl e \<Rightarrow> (fe, Inl e)
      | Inr filter_find_specs \<Rightarrow>
     (case CreateSession c fe (arg_command_line_arguments a) (arg_filter_file a)
             parser_filter_expression (arg_preferred_encoding a) (arg_preferred_year a) of
        Inl e \<Rightarrow> (fe, Inl e)
      | Inr session \<Rightarrow>
     (let storage_writer = ZIPStorageFileWriter session (fe_storage_file_path fe);
          call =
            (if single_process_mode then
               \<lparr>d_engine = eng,
                d_session_identifier = None,
                d_source_path_specs = arg_source_path_specs a,
                d_storage_writer = storage_writer,
                d_resolver_context = Some (fe_resolver_context fe),
                d_enable_sigsegv_handler = None,
                d_filter_find_specs = filter_find_specs,
                d_filter_object = fe_filter_object fe,
                d_hasher_names_string = arg_hasher_names_string a,
                d_mount_path = fe_mount_path fe,
                d_number_of_worker_processes = None,
                d_parser_filter_expression = parser_filter_expression,
                d_preferred_year = arg_preferred_year a,
                d_process_archive_files = arg_process_archive_files a,
                d_status_update_callback = arg_status_update_callback a,
                d_show_memory_usage = None,
                d_temporary_directory = arg_temporary_directory a,
                d_text_prepend = fe_text_prepend fe\<rparr>
             else
               \<lparr>d_engine = eng,
                d_session_identifier = Some (session_identifier session),
                d_source_path_specs = arg_source_path_specs a,
                d_storage_writer = storage_writer,
                d_resolver_context = None,
                d_enable_sigsegv_handler = Some (arg_enable_sigsegv_handler a),
                d_filter_find_specs = filter_find_specs,
                d_filter_object = fe_filter_object fe,
                d_hasher_names_string = arg_hasher_names_string a,
                d_mount_path = fe_mount_path fe,
                d_number_of_worker_processes = Some (arg_number_of_extraction_workers a),
                d_parser_filter_expression = parser_filter_expression,
                d_preferred_year = arg_preferred_year a,
                d_process_archive_files = arg_process_archive_files a,
                d_status_update_callback = arg_status_update_callback a,
                d_show_memory_usage = Some (fe_show_worker_memory_information fe),
                d_temporary_directory = arg_temporary_directory a,
                d_text_prepend = fe_text_prepend fe\<rparr>);
          fe = (if single_process_mode
                then logging DEBUG ''Starting extraction in single process mode.'' fe
                else logging DEBUG ''Starting extraction in multi process mode.'' fe);
          fe = fe\<lparr>effects := effects fe @ [Call_ProcessSources call]\<rparr>
      in (fe, engine_ProcessSources c call)))))))))))"

subsection \<open>The other public methods\<close>

definition DisableProfiling :: "frontend \<Rightarrow> frontend" where
  "DisableProfiling fe = fe\<lparr>fe_enable_profiling := False\<rparr>"

definition EnableProfiling :: "frontend \<Rightarrow> string option \<Rightarrow> int \<Rightarrow> string \<Rightarrow> frontend" where
  "EnableProfiling fe profiling_directory' profiling_sample_rate' profiling_type' =
     fe\<lparr>fe_enable_profiling := True,
        fe_profiling_directory := profiling_directory',
        fe_profiling_sample_rate := profiling_sample_rate',
        fe_profiling_type := profiling_type'\<rparr>"

definition SetDebugMode :: "frontend \<Rightarrow> bool \<Rightarrow> frontend" where
  "SetDebugMode fe enable_debug = fe\<lparr>fe_debug_mode := enable_debug\<rparr>"

definition SetShowMemoryInformation :: "frontend \<Rightarrow> bool \<Rightarrow> frontend" where
  "SetShowMemoryInformation fe show_memory = fe\<lparr>fe_show_worker_memory_information := show_memory\<rparr>"

definition SetStorageFile :: "frontend \<Rightarrow> string option \<Rightarrow> frontend" where
  "SetStorageFile fe storage_file_path = fe\<lparr>fe_storage_file_path := storage_file_path\<rparr>"

definition SetTextPrepend :: "frontend \<Rightarrow> string option \<Rightarrow> frontend" where
  "SetTextPrepend fe text_prepend = fe\<lparr>fe_text_prepend := text_prepend\<rparr>"

definition SetUseZeroMQ :: "frontend \<Rightarrow> bool \<Rightarrow> frontend" where
  "SetUseZeroMQ fe use_zeromq' = fe\<lparr>fe_use_zeromq := use_zeromq'\<rparr>"

text \<open>
  A call of a public method, with its arguments. The five information queries
  (\<^verbatim>\<open>GetHashersInformation\<close>, \<^verbatim>\<open>GetParserPluginsInformation\<close>, \<^verbatim>\<open>GetParserPresetsInformation\<close>,
  \<^verbatim>\<open>GetParsersInformation\<close>, \<^verbatim>\<open>GetNamesOfParsersWithPlugins\<close>) read the registries and
  assign no attribute. \<open>call_method\<close> gives the front-end after the call, the collaborators
  being those of the moment of the call. These are the public methods the class defines;
  its base class \<^verbatim>\<open>frontend.Frontend\<close> is not among the sources.
\<close>

datatype method_call =
    Call_DisableProfiling
  | Call_EnableProfiling "string option" int string
  | Call_GetHashersInformation
  | Call_GetParserPluginsInformation "string option"
  | Call_GetParserPresetsInformation
  | Call_GetParsersInformation
  | Call_GetNamesOfParsersWithPlugins
  | Call_ProcessSources_method arguments
  | Call_SetDebugMode bool
  | Call_SetShowMemoryInformation bool
  | Call_SetStorageFile "string option"
  | Call_SetTextPrepend "string option"
  | Call_SetUseZeroMQ bool

fun call_method :: "frontend \<Rightarrow> collaborators \<times> method_call \<Rightarrow> frontend" where
  "call_method fe (c, Call_DisableProfiling) = DisableProfiling fe"
| "call_method fe (c, Call_EnableProfiling d r t) = EnableProfiling fe d r t"
| "call_method fe (c, Call_GetHashersInformation) = fe"
| "call_method fe (c, Call_GetParserPluginsInformation e) = fe"
| "call_method fe (c, Call_GetParserPresetsInformation) = fe"
| "call_method fe (c, Call_GetParsersInformation) = fe"
| "call_method fe (c, Call_GetNamesOfParsersWithPlugins) = fe"
| "call_method fe (c, Call_ProcessSources_method a) = fst (ProcessSources c fe a)"
| "call_method fe (c, Call_SetDebugMode b) = SetDebugMode fe b"
| "call_method fe (c, Call_SetShowMemoryInformation b) = SetShowMemoryInformation fe b"
| "call_method fe (c, Call_SetStorageFile p) = SetStorageFile fe p"
| "call_method fe (c, Call_SetTextPrepend t) = SetTextPrepend fe t"
| "call_method fe (c, Call_SetUseZeroMQ b) = SetUseZeroMQ fe b"

definition after_calls :: "(collaborators \<times> method_call) list \<Rightarrow> frontend" where
  \<comment> \<open>The front-end after \<^verbatim>\<open>ExtractionFrontend()\<close> and a sequence of public calls.\<close>
  "after_calls calls = foldl call_method init calls"

subsection \<open>Notions used to state the properties\<close>

text \<open>
  The calls and the log lines among the effects.
\<close>

definition preprocess_calls :: "effect list \<Rightarrow> path_spec list list" where
  "preprocess_calls es = [s. Call_PreprocessSources s \<leftarrow> es]"

definition timezone_calls :: "effect list \<Rightarrow> string list" where
  "timezone_calls es = [z. Call_SetTimezone z \<leftarrow> es]"

definition dispatches :: "effect list \<Rightarrow> dispatch list" where
  "dispatches es = [d. Call_ProcessSources d \<leftarrow> es]"

definition run_effects :: "collaborators \<Rightarrow> frontend \<Rightarrow> arguments \<Rightarrow> effect list" where
  \<comment> \<open>The effects of one call of \<open>ProcessSources\<close>: those it adds to the ones before it.\<close>
  "run_effects c fe a = drop (length (effects fe)) (effects (fst (ProcessSources c fe a)))"

definition validated :: "collaborators \<Rightarrow> frontend \<Rightarrow> bool" where
  \<comment> \<open>The storage file path of the front-end passes \<open>CheckStorageFile\<close>.\<close>
  "validated c fe = (snd (CheckStorageFile c fe (fe_storage_file_path fe)) = None)"

definition appending_warning :: effect where
  "appending_warning = Logging WARNING ''Appending to an already existing storage file.''"

definition storage_effects :: "collaborators \<Rightarrow> string option \<Rightarrow> effect list" where
  \<comment> \<open>The effects of \<open>CheckStorageFile\<close>: the warning, for a path that is a file.\<close>
  "storage_effects c p =
     (case p of
        None \<Rightarrow> []
      | Some q \<Rightarrow> if os_path_exists c q \<and> os_path_isfile c q then [appending_warning] else [])"

definition containing_directory :: "collaborators \<Rightarrow> string \<Rightarrow> string" where
  \<comment> \<open>The directory \<open>CheckStorageFile\<close> tests for write access.\<close>
  "containing_directory c p = (if os_path_dirname c p = [] then ''.'' else os_path_dirname c p)"

definition effective_single_process_mode :: "arguments \<Rightarrow> bool" where
  \<comment> \<open>\<^verbatim>\<open>single_process_mode\<close> after the test of the source type.\<close>
  "effective_single_process_mode a =
     (if arg_source_type a = SOURCE_TYPE_FILE then True else arg_single_process_mode a)"

definition preprocessing_due :: "arguments \<Rightarrow> bool" where
  "preprocessing_due a =
     (arg_force_preprocessing a \<or> arg_source_type a \<in> SOURCE_TYPES_TO_PREPROCESS)"

definition uncaught :: "exception_class \<Rightarrow> exception option \<Rightarrow> exception option" where
  \<comment> \<open>What a handler \<^verbatim>\<open>except cls\<close> lets through.\<close>
  "uncaught cls raised =
     (case raised of None \<Rightarrow> None | Some e \<Rightarrow> if class_of e = cls then None else Some e)"

definition preprocessing_outcome :: "collaborators \<Rightarrow> exception option \<Rightarrow> exception option" where
  \<comment> \<open>What leaves \<open>PreprocessSources\<close> when the engine's call raised \<open>raised\<close>.\<close>
  "preprocessing_outcome c raised =
     (case raised of
        None \<Rightarrow> None
      | Some e \<Rightarrow>
          if class_of e = IOError
          then (case format_exception c e of Inl x \<Rightarrow> Some x | Inr formatted \<Rightarrow> None)
          else Some e)"

definition preprocessing_log ::
  "collaborators \<Rightarrow> path_spec list \<Rightarrow> exception option \<Rightarrow> effect list" where
  \<comment> \<open>The effects of \<open>PreprocessSources\<close> when the engine's call raised \<open>raised\<close>.\<close>
  "preprocessing_log c s raised =
     [Logging DEBUG ''Starting preprocessing.'', Call_PreprocessSources s] @
     (case raised of
        None \<Rightarrow> [Logging DEBUG ''Preprocessing done.'']
      | Some e \<Rightarrow>
          if class_of e = IOError
          then (case format_exception c e of
                  Inl x \<Rightarrow> []
                | Inr formatted \<Rightarrow> [Logging ERROR (''Unable to preprocess with error: '' @ formatted)])
          else [])"

definition selected_timezone :: "knowledge_base \<Rightarrow> string option \<Rightarrow> string" where
  \<comment> \<open>The precedence of the spec: the knowledge base value, then the caller's, then UTC.\<close>
  "selected_timezone kb timezone =
     (case GetValue kb ''time_zone_str'' of
        Some k \<Rightarrow>
          if k \<noteq> [] then k
          else (case timezone of None \<Rightarrow> ''UTC'' | Some t \<Rightarrow> if t \<noteq> [] then t else ''UTC'')
      | None \<Rightarrow>
          (case timezone of None \<Rightarrow> ''UTC'' | Some t \<Rightarrow> if t \<noteq> [] then t else ''UTC''))"

definition timezone_log :: "string \<Rightarrow> knowledge_base \<Rightarrow> exception option \<Rightarrow> effect list" where
  \<comment> \<open>The effects of \<open>SetTimezone\<close> when the call with \<open>z\<close> left \<open>kb\<close> and raised \<open>raised\<close>.\<close>
  "timezone_log z kb raised =
     [Logging INFO (''Setting timezone to: '' @ z), Call_SetTimezone z] @
     (case raised of
        None \<Rightarrow> []
      | Some e \<Rightarrow>
          if class_of e = ValueError
          then [Logging WARNING (''Unsupported time zone: '' @ z @ '', defaulting to ''
                  @ timezone_zone kb)]
          else [])"

definition preprocessed :: "collaborators \<Rightarrow> arguments \<Rightarrow> knowledge_base \<times> exception option" where
  \<comment> \<open>The knowledge base of the new engine after the preprocessing step, and what the
      engine's preprocessing raised.\<close>
  "preprocessed c a =
     (if preprocessing_due a
      then engine_PreprocessSources c (arg_source_path_specs a) (new_knowledge_base c)
      else (new_knowledge_base c, None))"

definition preprocessing_effects :: "collaborators \<Rightarrow> arguments \<Rightarrow> effect list" where
  "preprocessing_effects c a =
     (if preprocessing_due a
      then preprocessing_log c (arg_source_path_specs a) (snd (preprocessed c a))
      else [])"

definition resolved_expression :: "collaborators \<Rightarrow> arguments \<Rightarrow> string option" where
  \<comment> \<open>The parser filter expression after the derivation of a preset.\<close>
  "resolved_expression c a =
     (if \<not> truthy (arg_parser_filter_expression a)
      then GetParserFilterPreset (platform (fst (preprocessed c a)))
             (GetValue (fst (preprocessed c a)) ''osversion'')
      else arg_parser_filter_expression a)"

definition timezone_applied :: "collaborators \<Rightarrow> arguments \<Rightarrow> knowledge_base \<times> exception option" where
  \<comment> \<open>The call of the knowledge base's \<open>SetTimezone\<close> that a run makes.\<close>
  "timezone_applied c a =
     knowledge_base_SetTimezone c
       (selected_timezone (fst (preprocessed c a)) (arg_timezone a)) (fst (preprocessed c a))"

definition derivation_effects :: "collaborators \<Rightarrow> arguments \<Rightarrow> effect list" where
  \<comment> \<open>The log line of a derived preset.\<close>
  "derivation_effects c a =
     (if \<not> truthy (arg_parser_filter_expression a)
      then (case resolved_expression c a of
              None \<Rightarrow> []
            | Some p \<Rightarrow>
                if p = [] then []
                else [Logging INFO (''Parser filter expression changed to: '' @ p)])
      else [])"

definition timezone_effects :: "collaborators \<Rightarrow> arguments \<Rightarrow> effect list" where
  "timezone_effects c a =
     timezone_log (selected_timezone (fst (preprocessed c a)) (arg_timezone a))
       (fst (timezone_applied c a)) (snd (timezone_applied c a))"

definition filter_find_specs :: "collaborators \<Rightarrow> arguments \<Rightarrow> exception + find_spec list option" where
  \<comment> \<open>The find specifications of a run, built after the time zone is set.\<close>
  "filter_find_specs c a =
     (case arg_filter_file a of
        None \<Rightarrow> Inr None
      | Some f \<Rightarrow>
          if f = [] then Inr None
          else (case BuildFindSpecsFromFile c f
                       (GetPathAttributes (fst (timezone_applied c a))) of
                  Inl e \<Rightarrow> Inl e
                | Inr specs \<Rightarrow> Inr (Some specs)))"

definition raised_by_collaborator :: "collaborators \<Rightarrow> arguments \<Rightarrow> exception \<Rightarrow> bool" where
  \<comment> \<open>\<open>e\<close> is raised by a collaborator of the run and not caught by the front-end.\<close>
  "raised_by_collaborator c a e =
     (preprocessing_outcome c (snd (preprocessed c a)) = Some e
      \<or> GetParsers c (resolved_expression c a) = Inl e
      \<or> GetHasherNamesFromString c (arg_hasher_names_string a) = Inl e
      \<or> uncaught ValueError (snd (timezone_applied c a)) = Some e
      \<or> filter_find_specs c a = Inl e
      \<or> GetParserAndPluginNames c (resolved_expression c a) = Inl e)"

definition created_session ::
  "collaborators \<Rightarrow> frontend \<Rightarrow> arguments \<Rightarrow> string list \<Rightarrow> session" where
  \<comment> \<open>The session of a run whose parser and plugin names are \<open>names\<close>.\<close>
  "created_session c fe a names =
     \<lparr>session_identifier = new_session_identifier c,
      command_line_arguments = arg_command_line_arguments a,
      enabled_parser_names = names,
      filter_expression = fe_filter_expression fe,
      filter_file = arg_filter_file a,
      debug_mode = fe_debug_mode fe,
      parser_filter_expression = resolved_expression c a,
      preferred_encoding = arg_preferred_encoding a,
      preferred_year = arg_preferred_year a\<rparr>"

definition starting_extraction :: "arguments \<Rightarrow> effect" where
  "starting_extraction a =
     Logging DEBUG (if effective_single_process_mode a
                    then ''Starting extraction in single process mode.''
                    else ''Starting extraction in multi process mode.'')"

subsection \<open>An example\<close>

text \<open>
  A file system, an engine and registries on which the methods can be evaluated, and
  arguments for runs on a storage media image of a Windows XP system, on a single file,
  and on an image whose preprocessing fails with an I/O error.
\<close>

definition posixpath_dirname :: "string \<Rightarrow> string" where
  "posixpath_dirname p =
     (let head = rev (dropWhile (\<lambda>ch. ch \<noteq> CHR ''/'') (rev p))
      in if head \<noteq> [] \<and> \<not> list_all (\<lambda>ch. ch = CHR ''/'') head
         then rev (dropWhile (\<lambda>ch. ch = CHR ''/'') (rev head))
         else head)"

definition example_knowledge_base :: knowledge_base where
  "example_knowledge_base =
     \<lparr>platform = None, stored_values = [], timezone_zone = ''UTC'', path_attributes = []\<rparr>"

definition example_format_exception :: "exception \<Rightarrow> exception + string" where
  \<comment> \<open>Python 2.7: a byte string converts to text when all its bytes are ASCII.\<close>
  "example_format_exception e =
     (if list_all (\<lambda>ch. of_char ch < (128 :: nat)) (message e)
      then Inr (message e)
      else Inl (Exception ValueError
        ''UnicodeDecodeError: ascii codec cannot decode byte 0xc3''))"

definition example_collaborators :: collaborators where
  "example_collaborators =
     \<lparr>os_path_exists = (\<lambda>p. p \<in> set [''/cases/out.plaso'', ''/cases/old'', ''/cases'',
         ''/readonly/out.plaso'', ''/readonly'']),
      os_path_isfile = (\<lambda>p. p \<in> set [''/cases/out.plaso'', ''/readonly/out.plaso'']),
      os_path_dirname = posixpath_dirname,
      os_access_W_OK = (\<lambda>p. p \<in> set [''/cases'', ''.'']),
      new_knowledge_base = example_knowledge_base,
      new_session_identifier = ''f8a3c1'',
      engine_PreprocessSources = (\<lambda>specs kb.
        if specs = [''/evidence/xp.dd''] then
          (kb\<lparr>platform := Some ''Windows'',
              stored_values := [(''osversion'', ''Windows XP Professional''),
                (''time_zone_str'', ''W. Europe Standard Time'')]\<rparr>, None)
        else if specs = [''/evidence/broken.dd''] then
          (kb\<lparr>platform := Some ''Linux''\<rparr>, Some (Exception IOError ''Unable to read sector''))
        else if specs = [''/evidence/unreadable.dd''] then
          (kb, Some (Exception IOError
             (''Unable to open: /evidence/pi'' @ [CHR 0xC3, CHR 0xA8] @ ''ce.dd'')))
        else (kb, None)),
      knowledge_base_SetTimezone = (\<lambda>z kb.
        if z \<in> set [''UTC'', ''Europe/Amsterdam'']
        then (kb\<lparr>timezone_zone := z\<rparr>, None)
        else (kb, Some (Exception ValueError (''Unsupported timezone: '' @ z)))),
      engine_ProcessSources = (\<lambda>d. Inr (ProcessingStatus (length (d_source_path_specs d)))),
      GetParsers = (\<lambda>e.
        if e = Some ''winxp'' then Inr [(''winreg'', ''winreg''), (''winevt'', ''winevt'')]
        else if e = Some ''linux'' then Inr [(''syslog'', ''syslog'')]
        else if e = Some ''nonexistent'' then
          Inl (Exception BadConfigOption ''Unknown parser or plugin names: nonexistent'')
        else Inr [(''filestat'', ''filestat'')]),
      GetParserAndPluginNames = (\<lambda>e.
        if e = Some ''winxp'' then Inr [''winevt'', ''winreg'', ''winreg/default'']
        else if e = Some ''linux'' then Inr [''syslog'', ''syslog/cron'']
        else if e = Some ''nonexistent'' then
          Inl (Exception BadConfigOption ''Unknown parser or plugin names: nonexistent'')
        else Inr [''filestat'']),
      GetHasherNamesFromString = (\<lambda>s. Inr (case s of None \<Rightarrow> [] | Some n \<Rightarrow> [n])),
      BuildFindSpecsFromFile = (\<lambda>f attributes. Inr [f]),
      format_exception = example_format_exception\<rparr>"

definition example_frontend :: frontend where
  "example_frontend = SetStorageFile init (Some ''/cases/out.plaso'')"

definition example_arguments :: arguments where
  "example_arguments =
     \<lparr>arg_source_path_specs = [''/evidence/xp.dd''],
      arg_source_type = SOURCE_TYPE_STORAGE_MEDIA_IMAGE,
      arg_command_line_arguments = None,
      arg_enable_sigsegv_handler = False,
      arg_filter_file = None,
      arg_force_preprocessing = False,
      arg_hasher_names_string = None,
      arg_number_of_extraction_workers = 0,
      arg_parser_filter_expression = None,
      arg_preferred_encoding = Some ''utf-8'',
      arg_preferred_year = None,
      arg_process_archive_files = False,
      arg_single_process_mode = False,
      arg_status_update_callback = None,
      arg_temporary_directory = None,
      arg_timezone = Some ''Europe/Amsterdam''\<rparr>"

definition example_file_arguments :: arguments where
  "example_file_arguments =
     example_arguments\<lparr>arg_source_path_specs := [''/evidence/syslog''],
       arg_source_type := SOURCE_TYPE_FILE\<rparr>"

definition example_broken_arguments :: arguments where
  "example_broken_arguments =
     example_arguments\<lparr>arg_source_path_specs := [''/evidence/broken.dd'']\<rparr>"

definition example_unreadable_arguments :: arguments where
  "example_unreadable_arguments =
     example_arguments\<lparr>arg_source_path_specs := [''/evidence/unreadable.dd'']\<rparr>"

definition example_rejected_arguments :: arguments where
  "example_rejected_arguments =
     example_broken_arguments\<lparr>arg_parser_filter_expression := Some ''nonexistent''\<rparr>"

definition example_linux_arguments :: arguments where
  "example_linux_arguments =
     example_arguments\<lparr>arg_parser_filter_expression := Some ''linux''\<rparr>"

definition example_calls :: "(collaborators \<times> method_call) list" where
  "example_calls =
     [(example_collaborators, Call_SetStorageFile (Some ''/cases/out.plaso'')),
      (example_collaborators, Call_SetDebugMode True),
      (example_collaborators, Call_ProcessSources_method example_file_arguments)]"

definition example_engine :: engine where
  "example_engine =
     (CreateEngine example_collaborators init True)
       \<lparr>knowledge_base := fst (preprocessed example_collaborators example_arguments)\<rparr>"

definition example_built_frontend :: frontend where
  "example_built_frontend = init\<lparr>fe_engine := Some (CreateEngine example_collaborators init True)\<rparr>"

definition example_preprocessed_frontend :: frontend where
  "example_preprocessed_frontend = init\<lparr>fe_engine := Some example_engine\<rparr>"

definition example_rejected_frontend :: frontend where
  "example_rejected_frontend = SetStorageFile init (Some ''/cases/old'')"

section \<open>Properties of strings\<close>

lemma startswith_prefix: "startswith needle s = prefix needle s"
  by (induction needle s rule: startswith.induct) auto

lemma str_contains_sublist: "str_contains needle s = sublist needle s"
  by (induction s) (auto simp: startswith_prefix sublist_Cons_right)

lemma sublist_map_iff: "sublist p (map f s) = (\<exists>u. sublist u s \<and> map f u = p)"
proof
  assume "sublist p (map f s)"
  then obtain a b where "map f s = a @ p @ b"
    by (auto simp: sublist_def)
  then obtain a' r where r: "s = a' @ r" "map f r = p @ b"
    by (metis map_eq_append_conv)
  then obtain u b' where "r = u @ b'" "map f u = p"
    by (metis map_eq_append_conv)
  with r have "sublist u s \<and> map f u = p"
    by (auto simp: sublist_def)
  then show "\<exists>u. sublist u s \<and> map f u = p" ..
next
  assume "\<exists>u. sublist u s \<and> map f u = p"
  then show "sublist p (map f s)"
    by (auto dest: map_mono_sublist)
qed

lemma matches_ci_code: "matches_ci needle s = str_contains (lower needle) (lower s)"
  by (simp add: matches_ci_def str_contains_sublist lower_def sublist_map_iff)

lemma lower_needles:
  "lower ''windows xp'' = ''windows xp''"
  "lower ''windows server 2000'' = ''windows server 2000''"
  "lower ''windows server 2003'' = ''windows server 2003''"
  "lower ''windows'' = ''windows''"
  by code_simp+

lemma str_contains_trans:
  "str_contains a b \<Longrightarrow> str_contains b c \<Longrightarrow> str_contains a c"
  unfolding str_contains_sublist by (rule sublist_order.order_trans)

lemma windows_in_needles:
  "str_contains ''windows'' ''windows xp''"
  "str_contains ''windows'' ''windows server 2000''"
  "str_contains ''windows'' ''windows server 2003''"
  by code_simp+

lemma GetParserFilterPreset_os_guess_only:
  "\<not> truthy os_version \<Longrightarrow>
   GetParserFilterPreset os_guess os_version =
     (if os_guess = Some OS_LINUX then Some ''linux''
      else if os_guess = Some OS_MACOSX then Some ''macosx''
      else if os_guess = Some OS_WINDOWS then Some ''win7''
      else None)"
  by (auto simp: GetParserFilterPreset_def Let_def truthy_def OS_LINUX_def OS_MACOSX_def OS_WINDOWS_def
      split: option.splits)

lemma GetParserFilterPreset_examples:
  "GetParserFilterPreset (Some '''') (Some ''Windows XP'') = Some ''winxp''"
  "GetParserFilterPreset (Some '''') (Some ''Windows Server 2003 R2'') = Some ''winxp''"
  "GetParserFilterPreset (Some '''') (Some ''Windows 10'') = Some ''win7''"
  "GetParserFilterPreset (Some OS_LINUX) (Some '''') = Some ''linux''"
  "GetParserFilterPreset (Some OS_MACOSX) (Some '''') = Some ''macosx''"
  "GetParserFilterPreset (Some '''') (Some '''') = None"
  by code_simp+

section \<open>The parser filter preset\<close>

text \<open>
  Claim C1. \<open>GetParserFilterPreset\<close> is a function of the pair (os_guess, os_version)
  alone: it reads and changes no state, and gives a result for every pair. When
  os_version is non-empty and matches, ignoring case, "windows xp", "windows server 2000"
  or "windows server 2003", the preset is winxp; when it matches none of these but
  matches "windows", the preset is win7. When os_version is empty or None, os_guess
  decides: Linux gives linux, MacOSX gives macosx, Windows gives win7, and anything else
  gives no preset. The six examples of the spec hold.
\<close>

theorem GetParserFilterPreset_resolution:
  "(v \<noteq> [] \<and> (matches_ci ''windows xp'' v \<or> matches_ci ''windows server 2000'' v
        \<or> matches_ci ''windows server 2003'' v)
      \<longrightarrow> GetParserFilterPreset os_guess (Some v) = Some ''winxp'')
   \<and> (v \<noteq> [] \<and> \<not> matches_ci ''windows xp'' v \<and> \<not> matches_ci ''windows server 2000'' v
        \<and> \<not> matches_ci ''windows server 2003'' v \<and> matches_ci ''windows'' v
      \<longrightarrow> GetParserFilterPreset os_guess (Some v) = Some ''win7'')
   \<and> (\<not> truthy os_version
      \<longrightarrow> GetParserFilterPreset os_guess os_version =
           (if os_guess = Some OS_LINUX then Some ''linux''
            else if os_guess = Some OS_MACOSX then Some ''macosx''
            else if os_guess = Some OS_WINDOWS then Some ''win7''
            else None))
   \<and> GetParserFilterPreset (Some '''') (Some ''Windows XP'') = Some ''winxp''
   \<and> GetParserFilterPreset (Some '''') (Some ''Windows Server 2003 R2'') = Some ''winxp''
   \<and> GetParserFilterPreset (Some '''') (Some ''Windows 10'') = Some ''win7''
   \<and> GetParserFilterPreset (Some OS_LINUX) (Some '''') = Some ''linux''
   \<and> GetParserFilterPreset (Some OS_MACOSX) (Some '''') = Some ''macosx''
   \<and> GetParserFilterPreset (Some '''') (Some '''') = None"
proof -
  have winxp: "GetParserFilterPreset os_guess (Some v) = Some ''winxp''"
    if "v \<noteq> []" "matches_ci ''windows xp'' v \<or> matches_ci ''windows server 2000'' v
        \<or> matches_ci ''windows server 2003'' v"
    using that
    by (auto simp: GetParserFilterPreset_def Let_def truthy_def matches_ci_code lower_needles)
  have win7: "GetParserFilterPreset os_guess (Some v) = Some ''win7''"
    if "v \<noteq> []" "\<not> matches_ci ''windows xp'' v"
       "\<not> matches_ci ''windows server 2000'' v"
       "\<not> matches_ci ''windows server 2003'' v" "matches_ci ''windows'' v"
    using that
    by (auto simp: GetParserFilterPreset_def Let_def truthy_def matches_ci_code lower_needles)
  show ?thesis
    using winxp win7 GetParserFilterPreset_os_guess_only [of os_version os_guess]
      GetParserFilterPreset_examples
    by blast
qed

theorem GetParserFilterPreset_resolution_witness:
  "matches_ci ''windows server 2003'' ''Windows Server 2003 R2''
   \<and> GetParserFilterPreset (Some ''Linux'') (Some ''Windows Server 2003 R2'') = Some ''winxp''
   \<and> \<not> matches_ci ''windows xp'' ''Windows 10 Pro''
   \<and> \<not> matches_ci ''windows server 2000'' ''Windows 10 Pro''
   \<and> \<not> matches_ci ''windows server 2003'' ''Windows 10 Pro''
   \<and> matches_ci ''windows'' ''Windows 10 Pro''
   \<and> GetParserFilterPreset (Some ''Linux'') (Some ''Windows 10 Pro'') = Some ''win7''
   \<and> \<not> truthy None
   \<and> GetParserFilterPreset (Some ''Linux'') None = Some ''linux''"
proof -
  have m: "matches_ci ''windows server 2003'' ''Windows Server 2003 R2''"
    unfolding matches_ci_code by code_simp
  have n: "\<not> matches_ci ''windows xp'' ''Windows 10 Pro''"
    "\<not> matches_ci ''windows server 2000'' ''Windows 10 Pro''"
    "\<not> matches_ci ''windows server 2003'' ''Windows 10 Pro''"
    "matches_ci ''windows'' ''Windows 10 Pro''"
    unfolding matches_ci_code by code_simp+
  have t: "\<not> truthy None"
    by (simp add: truthy_def)
  show ?thesis
    using m n t
      GetParserFilterPreset_resolution
        [where v = "''Windows Server 2003 R2''" and os_guess = "Some ''Linux''"
           and os_version = None]
      GetParserFilterPreset_resolution
        [where v = "''Windows 10 Pro''" and os_guess = "Some ''Linux''"
           and os_version = None]
    by (simp add: OS_LINUX_def)
qed

text \<open>
  Claim C10. When os_version is non-empty and matches none of "windows xp", "windows
  server 2000", "windows server 2003" and "windows", the resolution goes on to os_guess:
  the preset is the one os_guess alone gives, so Linux with "Ubuntu 14.04" gives linux.
\<close>

theorem GetParserFilterPreset_consults_os_guess:
  "(v \<noteq> [] \<and> \<not> matches_ci ''windows xp'' v \<and> \<not> matches_ci ''windows server 2000'' v
       \<and> \<not> matches_ci ''windows server 2003'' v \<and> \<not> matches_ci ''windows'' v
     \<longrightarrow> GetParserFilterPreset os_guess (Some v) =
           (if os_guess = Some OS_LINUX then Some ''linux''
            else if os_guess = Some OS_MACOSX then Some ''macosx''
            else if os_guess = Some OS_WINDOWS then Some ''win7''
            else None))
   \<and> GetParserFilterPreset (Some OS_LINUX) (Some ''Ubuntu 14.04'') = Some ''linux''"
proof -
  have ex: "GetParserFilterPreset (Some OS_LINUX) (Some ''Ubuntu 14.04'') = Some ''linux''"
    by code_simp
  have "GetParserFilterPreset os_guess (Some v) = GetParserFilterPreset os_guess None"
    if "v \<noteq> []" "\<not> matches_ci ''windows'' v"
  proof -
    from that have w: "\<not> str_contains ''windows'' (lower v)"
      by (simp add: matches_ci_code lower_needles)
    then have "\<not> str_contains ''windows xp'' (lower v)"
      "\<not> str_contains ''windows server 2000'' (lower v)"
      "\<not> str_contains ''windows server 2003'' (lower v)"
      using windows_in_needles str_contains_trans by blast+
    with w show ?thesis
      by (simp add: GetParserFilterPreset_def Let_def truthy_def)
  qed
  moreover have "\<not> truthy None"
    by (simp add: truthy_def)
  ultimately show ?thesis
    using ex GetParserFilterPreset_os_guess_only [of None os_guess] by simp
qed

theorem GetParserFilterPreset_consults_os_guess_witness:
  "''FreeBSD 10.3'' \<noteq> [] \<and> \<not> matches_ci ''windows xp'' ''FreeBSD 10.3''
   \<and> \<not> matches_ci ''windows server 2000'' ''FreeBSD 10.3''
   \<and> \<not> matches_ci ''windows server 2003'' ''FreeBSD 10.3''
   \<and> \<not> matches_ci ''windows'' ''FreeBSD 10.3''
   \<and> GetParserFilterPreset (Some ''MacOSX'') (Some ''FreeBSD 10.3'') = Some ''macosx''"
proof -
  have m: "\<not> matches_ci ''windows xp'' ''FreeBSD 10.3''"
    "\<not> matches_ci ''windows server 2000'' ''FreeBSD 10.3''"
    "\<not> matches_ci ''windows server 2003'' ''FreeBSD 10.3''"
    "\<not> matches_ci ''windows'' ''FreeBSD 10.3''"
    unfolding matches_ci_code by code_simp+
  show ?thesis
    using m
      GetParserFilterPreset_consults_os_guess
        [where v = "''FreeBSD 10.3''" and os_guess = "Some ''MacOSX''"]
    by (simp add: OS_LINUX_def OS_MACOSX_def)
qed

section \<open>Effects\<close>

lemma observers_append [simp]:
  "preprocess_calls (xs @ ys) = preprocess_calls xs @ preprocess_calls ys"
  "timezone_calls (xs @ ys) = timezone_calls xs @ timezone_calls ys"
  "dispatches (xs @ ys) = dispatches xs @ dispatches ys"
  by (simp_all add: preprocess_calls_def timezone_calls_def dispatches_def)

lemma observers_simps [simp]:
  "preprocess_calls [] = []" "timezone_calls [] = []" "dispatches [] = []"
  "preprocess_calls (Logging l m # es) = preprocess_calls es"
  "preprocess_calls (Call_PreprocessSources s # es) = s # preprocess_calls es"
  "preprocess_calls (Call_SetTimezone z # es) = preprocess_calls es"
  "preprocess_calls (Call_ProcessSources d # es) = preprocess_calls es"
  "timezone_calls (Logging l m # es) = timezone_calls es"
  "timezone_calls (Call_PreprocessSources s # es) = timezone_calls es"
  "timezone_calls (Call_SetTimezone z # es) = z # timezone_calls es"
  "timezone_calls (Call_ProcessSources d # es) = timezone_calls es"
  "dispatches (Logging l m # es) = dispatches es"
  "dispatches (Call_PreprocessSources s # es) = dispatches es"
  "dispatches (Call_SetTimezone z # es) = dispatches es"
  "dispatches (Call_ProcessSources d # es) = d # dispatches es"
  by (simp_all add: preprocess_calls_def timezone_calls_def dispatches_def)

lemma preprocessing_log_calls [simp]:
  "preprocess_calls (preprocessing_log c s r) = [s]"
  "timezone_calls (preprocessing_log c s r) = []"
  "dispatches (preprocessing_log c s r) = []"
  by (simp_all add: preprocessing_log_def split: option.splits sum.splits)

lemma timezone_log_calls [simp]:
  "preprocess_calls (timezone_log z kb r) = []"
  "timezone_calls (timezone_log z kb r) = [z]"
  "dispatches (timezone_log z kb r) = []"
  by (simp_all add: timezone_log_def split: option.splits)

section \<open>The methods\<close>

lemma CheckStorageFile_fst:
  "fst (CheckStorageFile c fe p) = fe\<lparr>effects := effects fe @ storage_effects c p\<rparr>"
  by (cases p) (simp_all add: CheckStorageFile_def storage_effects_def Let_def logging_def
      appending_warning_def)

lemma PreprocessSources_eq:
  "fe_engine fe = Some eng \<Longrightarrow>
   PreprocessSources c fe s =
     (fe\<lparr>fe_engine := Some (eng\<lparr>knowledge_base :=
            fst (engine_PreprocessSources c s (knowledge_base eng))\<rparr>),
         effects := effects fe
            @ preprocessing_log c s (snd (engine_PreprocessSources c s (knowledge_base eng)))\<rparr>,
      preprocessing_outcome c (snd (engine_PreprocessSources c s (knowledge_base eng))))"
  by (cases "engine_PreprocessSources c s (knowledge_base eng)")
    (auto simp: PreprocessSources_def Let_def logging_def preprocessing_log_def
      preprocessing_outcome_def
      split: option.splits sum.splits)

lemma SetTimezone_eq:
  "fe_engine fe = Some eng \<Longrightarrow>
   SetTimezone c fe tz =
     (let z = selected_timezone (knowledge_base eng) tz;
          t = knowledge_base_SetTimezone c z (knowledge_base eng)
      in (fe\<lparr>fe_engine := Some (eng\<lparr>knowledge_base := fst t\<rparr>),
             effects := effects fe @ timezone_log z (fst t) (snd t)\<rparr>,
          uncaught ValueError (snd t)))"
  by (cases "knowledge_base_SetTimezone c (selected_timezone (knowledge_base eng) tz)
        (knowledge_base eng)")
    (auto simp: SetTimezone_def Let_def logging_def timezone_log_def uncaught_def
      selected_timezone_def truthy_def split: option.splits)

section \<open>The runs of ProcessSources\<close>

lemma ProcessSources_cases
  [case_names invalid preprocess_raised parsers_raised hashers_raised timezone_raised
     find_specs_raised session_raised dispatched]:
  fixes c :: collaborators and fe :: frontend and a :: arguments
  defines "single \<equiv>
    (if arg_source_type a = SOURCE_TYPE_FILE then True else arg_single_process_mode a)"
  defines "built \<equiv> \<lambda>fe1. fe1\<lparr>fe_engine := Some (CreateEngine c fe1 single)\<rparr>"
  defines "pre \<equiv> \<lambda>fe1. if arg_force_preprocessing a
                              \<or> arg_source_type a \<in> SOURCE_TYPES_TO_PREPROCESS
                        then PreprocessSources c (built fe1) (arg_source_path_specs a)
                        else (built fe1, None)"
  defines "expr \<equiv> \<lambda>eng. if \<not> truthy (arg_parser_filter_expression a)
       then GetParserFilterPreset (platform (knowledge_base eng))
              (GetValue (knowledge_base eng) ''osversion'')
       else arg_parser_filter_expression a"
  defines "named \<equiv> \<lambda>eng fe3.
       (if \<not> truthy (arg_parser_filter_expression a)
        then (case expr eng of None \<Rightarrow> fe3
              | Some p \<Rightarrow> if p = [] then fe3
                  else logging INFO (''Parser filter expression changed to: '' @ p) fe3)
        else fe3)"
  defines "find_specs \<equiv> \<lambda>eng.
       (case arg_filter_file a of None \<Rightarrow> Inr None
        | Some f \<Rightarrow> if f = [] then Inr None
            else (let path_attributes = GetPathAttributes (knowledge_base eng) in
                  case BuildFindSpecsFromFile c f path_attributes of
                    Inl e \<Rightarrow> Inl e | Inr specs \<Rightarrow> Inr (Some specs)))"
  assumes invalid: "\<And>fe1 e.
      CheckStorageFile c fe (fe_storage_file_path fe) = (fe1, Some e) \<Longrightarrow> P (fe1, Inl e)"
    and preprocess_raised: "\<And>fe1 fe3 e.
      CheckStorageFile c fe (fe_storage_file_path fe) = (fe1, None) \<Longrightarrow>
      pre fe1 = (fe3, Some e) \<Longrightarrow> P (fe3, Inl e)"
    and parsers_raised: "\<And>fe1 fe3 eng e.
      CheckStorageFile c fe (fe_storage_file_path fe) = (fe1, None) \<Longrightarrow>
      pre fe1 = (fe3, None) \<Longrightarrow> fe_engine fe3 = Some eng \<Longrightarrow>
      GetParsers c (expr eng) = Inl e \<Longrightarrow>
      P ((named eng fe3)\<lparr>fe_parser_names := Some []\<rparr>, Inl e)"
    and hashers_raised: "\<And>fe1 fe3 eng parsers e.
      CheckStorageFile c fe (fe_storage_file_path fe) = (fe1, None) \<Longrightarrow>
      pre fe1 = (fe3, None) \<Longrightarrow> fe_engine fe3 = Some eng \<Longrightarrow>
      GetParsers c (expr eng) = Inr parsers \<Longrightarrow>
      GetHasherNamesFromString c (arg_hasher_names_string a) = Inl e \<Longrightarrow>
      P ((named eng fe3)\<lparr>fe_parser_names := Some (map snd parsers), fe_hasher_names := []\<rparr>,
         Inl e)"
    and timezone_raised: "\<And>fe1 fe3 eng parsers hasher_names fe7 e.
      CheckStorageFile c fe (fe_storage_file_path fe) = (fe1, None) \<Longrightarrow>
      pre fe1 = (fe3, None) \<Longrightarrow> fe_engine fe3 = Some eng \<Longrightarrow>
      GetParsers c (expr eng) = Inr parsers \<Longrightarrow>
      GetHasherNamesFromString c (arg_hasher_names_string a) = Inr hasher_names \<Longrightarrow>
      SetTimezone c ((named eng fe3)\<lparr>fe_parser_names := Some (map snd parsers),
          fe_hasher_names := hasher_names\<rparr>) (arg_timezone a) = (fe7, Some e) \<Longrightarrow>
      P (fe7, Inl e)"
    and find_specs_raised: "\<And>fe1 fe3 eng parsers hasher_names fe7 eng7 e.
      CheckStorageFile c fe (fe_storage_file_path fe) = (fe1, None) \<Longrightarrow>
      pre fe1 = (fe3, None) \<Longrightarrow> fe_engine fe3 = Some eng \<Longrightarrow>
      GetParsers c (expr eng) = Inr parsers \<Longrightarrow>
      GetHasherNamesFromString c (arg_hasher_names_string a) = Inr hasher_names \<Longrightarrow>
      SetTimezone c ((named eng fe3)\<lparr>fe_parser_names := Some (map snd parsers),
          fe_hasher_names := hasher_names\<rparr>) (arg_timezone a) = (fe7, None) \<Longrightarrow>
      fe_engine fe7 = Some eng7 \<Longrightarrow> find_specs eng7 = Inl e \<Longrightarrow>
      P (fe7, Inl e)"
    and session_raised: "\<And>fe1 fe3 eng parsers hasher_names fe7 eng7 filter_find_specs e.
      CheckStorageFile c fe (fe_storage_file_path fe) = (fe1, None) \<Longrightarrow>
      pre fe1 = (fe3, None) \<Longrightarrow> fe_engine fe3 = Some eng \<Longrightarrow>
      GetParsers c (expr eng) = Inr parsers \<Longrightarrow>
      GetHasherNamesFromString c (arg_hasher_names_string a) = Inr hasher_names \<Longrightarrow>
      SetTimezone c ((named eng fe3)\<lparr>fe_parser_names := Some (map snd parsers),
          fe_hasher_names := hasher_names\<rparr>) (arg_timezone a) = (fe7, None) \<Longrightarrow>
      fe_engine fe7 = Some eng7 \<Longrightarrow> find_specs eng7 = Inr filter_find_specs \<Longrightarrow>
      CreateSession c fe7 (arg_command_line_arguments a) (arg_filter_file a) (expr eng)
        (arg_preferred_encoding a) (arg_preferred_year a) = Inl e \<Longrightarrow>
      P (fe7, Inl e)"
    and dispatched: "\<And>fe1 fe3 eng parsers hasher_names fe7 eng7 filter_find_specs session d.
      CheckStorageFile c fe (fe_storage_file_path fe) = (fe1, None) \<Longrightarrow>
      pre fe1 = (fe3, None) \<Longrightarrow> fe_engine fe3 = Some eng \<Longrightarrow>
      GetParsers c (expr eng) = Inr parsers \<Longrightarrow>
      GetHasherNamesFromString c (arg_hasher_names_string a) = Inr hasher_names \<Longrightarrow>
      SetTimezone c ((named eng fe3)\<lparr>fe_parser_names := Some (map snd parsers),
          fe_hasher_names := hasher_names\<rparr>) (arg_timezone a) = (fe7, None) \<Longrightarrow>
      fe_engine fe7 = Some eng7 \<Longrightarrow> find_specs eng7 = Inr filter_find_specs \<Longrightarrow>
      CreateSession c fe7 (arg_command_line_arguments a) (arg_filter_file a) (expr eng)
        (arg_preferred_encoding a) (arg_preferred_year a) = Inr session \<Longrightarrow>
      d_engine d = eng7 \<Longrightarrow>
      d_storage_writer d = ZIPStorageFileWriter session (fe_storage_file_path fe7) \<Longrightarrow>
      d_parser_filter_expression d = expr eng \<Longrightarrow>
      d_session_identifier d = (if single then None else Some (session_identifier session)) \<Longrightarrow>
      d_source_path_specs d = arg_source_path_specs a \<Longrightarrow>
      d_filter_find_specs d = filter_find_specs \<Longrightarrow>
      P (fe7\<lparr>effects := effects fe7 @
            [Logging DEBUG (if single then ''Starting extraction in single process mode.''
                            else ''Starting extraction in multi process mode.''),
             Call_ProcessSources d]\<rparr>,
         engine_ProcessSources c d)"
  shows "P (ProcessSources c fe a)"
proof -
  note defs = single_def built_def pre_def expr_def named_def find_specs_def
  obtain fe1 r1 where 1: "CheckStorageFile c fe (fe_storage_file_path fe) = (fe1, r1)"
    by (cases "CheckStorageFile c fe (fe_storage_file_path fe)")
  show ?thesis
  proof (cases r1)
    case (Some e)
    with 1 invalid [of fe1 e] show ?thesis
      by (simp add: ProcessSources_def)
  next
    case None
    note 1 = 1 [unfolded None]
    obtain fe3 r3 where 3: "pre fe1 = (fe3, r3)"
      by (cases "pre fe1")
    show ?thesis
    proof (cases r3)
      case (Some e)
      note 3 = 3 [unfolded Some]
      show ?thesis
        using 1 3 [unfolded defs] preprocess_raised [OF 1 3]
        by (auto simp: ProcessSources_def Let_def)
    next
      case None
      note 3 = 3 [unfolded None]
      have b: "fe_engine (built fe1) = Some (CreateEngine c fe1 single)"
        by (simp add: built_def)
      from 3 b PreprocessSources_eq [OF b] have "fe_engine fe3 \<noteq> None"
        by (auto simp: pre_def split: if_splits)
      then obtain eng where eng: "fe_engine fe3 = Some eng"
        by blast
      show ?thesis
      proof (cases "GetParsers c (expr eng)")
        case (Inl e)
        show ?thesis
          using 1 3 [unfolded defs] eng Inl [unfolded defs]
            parsers_raised [OF 1 3 eng Inl, unfolded defs]
          by (auto simp: ProcessSources_def Let_def)
      next
        case (Inr parsers)
        note 4 = Inr
        show ?thesis
        proof (cases "GetHasherNamesFromString c (arg_hasher_names_string a)")
          case (Inl e)
          show ?thesis
            using 1 3 [unfolded defs] eng 4 [unfolded defs] Inl
              hashers_raised [OF 1 3 eng 4 Inl, unfolded defs]
            by (auto simp: ProcessSources_def Let_def)
        next
          case (Inr hasher_names)
          note 5 = Inr
          obtain fe7 r7 where 7: "SetTimezone c ((named eng fe3)\<lparr>fe_parser_names :=
              Some (map snd parsers), fe_hasher_names := hasher_names\<rparr>) (arg_timezone a)
              = (fe7, r7)"
            by (cases "SetTimezone c ((named eng fe3)\<lparr>fe_parser_names :=
              Some (map snd parsers), fe_hasher_names := hasher_names\<rparr>) (arg_timezone a)")
          show ?thesis
          proof (cases r7)
            case (Some e)
            note 7 = 7 [unfolded Some]
            show ?thesis
              using 1 3 [unfolded defs] eng 4 [unfolded defs] 5 7 [unfolded defs]
                timezone_raised [OF 1 3 eng 4 5 7]
              by (auto simp: ProcessSources_def Let_def)
          next
            case None
            note 7 = 7 [unfolded None]
            have "fe_engine ((named eng fe3)\<lparr>fe_parser_names := Some (map snd parsers),
                fe_hasher_names := hasher_names\<rparr>) = Some eng"
              using eng by (simp add: named_def logging_def split: option.splits)
            from 7 SetTimezone_eq [OF this] have "fe_engine fe7 \<noteq> None"
              by (auto simp: Let_def)
            then obtain eng7 where eng7: "fe_engine fe7 = Some eng7"
              by blast
            show ?thesis
            proof (cases "find_specs eng7")
              case (Inl e)
              show ?thesis
                using 1 3 [unfolded defs] eng 4 [unfolded defs] 5 7 [unfolded defs] eng7
                  Inl [unfolded defs] find_specs_raised [OF 1 3 eng 4 5 7 eng7 Inl]
                by (auto simp: ProcessSources_def Let_def)
            next
              case (Inr filter_find_specs)
              note 8 = Inr
              show ?thesis
              proof (cases "CreateSession c fe7 (arg_command_line_arguments a)
                  (arg_filter_file a) (expr eng) (arg_preferred_encoding a)
                  (arg_preferred_year a)")
                case (Inl e)
                show ?thesis
                  using 1 3 [unfolded defs] eng 4 [unfolded defs] 5 7 [unfolded defs] eng7
                    8 [unfolded defs] Inl [unfolded defs]
                    session_raised [OF 1 3 eng 4 5 7 eng7 8 Inl]
                  by (auto simp: ProcessSources_def Let_def)
              next
                case (Inr session)
                note 9 = Inr
                show ?thesis
                proof (cases single)
                  case True
                  show ?thesis
                    using 1 3 [unfolded defs] eng 4 [unfolded defs] 5 7 [unfolded defs] eng7
                      8 [unfolded defs] 9 [unfolded defs] True [unfolded defs]
                      dispatched [OF 1 3 eng 4 5 7 eng7 8 9, unfolded defs]
                    by (auto simp: ProcessSources_def Let_def logging_def)
                next
                  case False
                  show ?thesis
                    using 1 3 [unfolded defs] eng 4 [unfolded defs] 5 7 [unfolded defs] eng7
                      8 [unfolded defs] 9 [unfolded defs] False [unfolded defs]
                      dispatched [OF 1 3 eng 4 5 7 eng7 8 9, unfolded defs]
                    by (auto simp: ProcessSources_def Let_def logging_def)
                qed
              qed
            qed
          qed
        qed
      qed
    qed
  qed
qed



lemma CreateEngine_effects [simp]:
  "CreateEngine c (fe\<lparr>effects := es\<rparr>) b = CreateEngine c fe b"
  by (simp add: CreateEngine_def)

lemma CreateEngine_knowledge_base [simp]:
  "knowledge_base (CreateEngine c fe b) = new_knowledge_base c"
  "(CreateEngine c fe b)\<lparr>knowledge_base := new_knowledge_base c\<rparr> = CreateEngine c fe b"
  by (simp_all add: CreateEngine_def)

lemma after_validation:
  assumes "CheckStorageFile c fe p = (fe1, r)"
  shows "fe1 = fe\<lparr>effects := effects fe @ storage_effects c p\<rparr>"
    and "snd (CheckStorageFile c fe p) = r"
  using assms CheckStorageFile_fst [of c fe p] by simp_all

lemma after_preprocessing:
  assumes "fe1 = fe\<lparr>effects := effects fe @ w\<rparr>"
    and "(if arg_force_preprocessing a \<or> arg_source_type a \<in> SOURCE_TYPES_TO_PREPROCESS
          then PreprocessSources c
                 (fe1\<lparr>fe_engine := Some (CreateEngine c fe1
                    (if arg_source_type a = SOURCE_TYPE_FILE then True
                     else arg_single_process_mode a))\<rparr>)
                 (arg_source_path_specs a)
          else (fe1\<lparr>fe_engine := Some (CreateEngine c fe1
                    (if arg_source_type a = SOURCE_TYPE_FILE then True
                     else arg_single_process_mode a))\<rparr>, None)) = (fe3, r3)"
  shows "fe3 = fe\<lparr>fe_engine := Some ((CreateEngine c fe (effective_single_process_mode a))
                    \<lparr>knowledge_base := fst (preprocessed c a)\<rparr>),
                  effects := effects fe @ w @ preprocessing_effects c a\<rparr>"
    and "r3 = preprocessing_outcome c (snd (preprocessed c a))"
proof -
  let ?b = "effective_single_process_mode a"
  have e: "fe_engine (fe1\<lparr>fe_engine := Some (CreateEngine c fe1 ?b)\<rparr>)
      = Some (CreateEngine c fe ?b)"
    using assms(1) by simp
  show "fe3 = fe\<lparr>fe_engine := Some ((CreateEngine c fe ?b)
                    \<lparr>knowledge_base := fst (preprocessed c a)\<rparr>),
                  effects := effects fe @ w @ preprocessing_effects c a\<rparr>"
    using assms PreprocessSources_eq [OF e]
    by (cases "preprocessing_due a")
      (auto simp: preprocessing_due_def preprocessed_def preprocessing_effects_def
        effective_single_process_mode_def preprocessing_outcome_def)
  show "r3 = preprocessing_outcome c (snd (preprocessed c a))"
    using assms PreprocessSources_eq [OF e]
    by (cases "preprocessing_due a")
      (auto simp: preprocessing_due_def preprocessed_def preprocessing_effects_def
        effective_single_process_mode_def preprocessing_outcome_def)
qed


lemma derived_effects_calls [simp]:
  "preprocess_calls (storage_effects c p) = []"
  "timezone_calls (storage_effects c p) = []"
  "dispatches (storage_effects c p) = []"
  "preprocess_calls (derivation_effects c a) = []"
  "timezone_calls (derivation_effects c a) = []"
  "dispatches (derivation_effects c a) = []"
  "preprocess_calls (timezone_effects c a) = []"
  "timezone_calls (timezone_effects c a)
     = [selected_timezone (fst (preprocessed c a)) (arg_timezone a)]"
  "dispatches (timezone_effects c a) = []"
  "preprocess_calls (preprocessing_effects c a)
     = (if preprocessing_due a then [arg_source_path_specs a] else [])"
  "timezone_calls (preprocessing_effects c a) = []"
  "dispatches (preprocessing_effects c a) = []"
  by (simp_all add: storage_effects_def appending_warning_def derivation_effects_def
      timezone_effects_def preprocessing_effects_def split: option.splits)

lemma starting_extraction_calls [simp]:
  "preprocess_calls (starting_extraction a # es) = preprocess_calls es"
  "timezone_calls (starting_extraction a # es) = timezone_calls es"
  "dispatches (starting_extraction a # es) = dispatches es"
  by (simp_all add: starting_extraction_def)

lemma after_derivation:
  assumes "knowledge_base eng = fst (preprocessed c a)"
  shows "(if \<not> truthy (arg_parser_filter_expression a)
          then GetParserFilterPreset (platform (knowledge_base eng))
                 (GetValue (knowledge_base eng) ''osversion'')
          else arg_parser_filter_expression a) = resolved_expression c a"
    and "(if \<not> truthy (arg_parser_filter_expression a)
          then (case resolved_expression c a of
                  None \<Rightarrow> fe3
                | Some p \<Rightarrow>
                    if p = [] then fe3
                    else logging INFO (''Parser filter expression changed to: '' @ p) fe3)
          else fe3) = fe3\<lparr>effects := effects fe3 @ derivation_effects c a\<rparr>"
  using assms
  by (simp_all add: resolved_expression_def derivation_effects_def logging_def
      split: option.splits)

lemma after_timezone:
  assumes "fe_engine X = Some eng"
    and "knowledge_base eng = fst (preprocessed c a)"
    and "SetTimezone c X (arg_timezone a) = (fe7, r7)"
  shows "fe7 = X\<lparr>fe_engine := Some (eng\<lparr>knowledge_base := fst (timezone_applied c a)\<rparr>),
                 effects := effects X @ timezone_effects c a\<rparr>"
    and "r7 = uncaught ValueError (snd (timezone_applied c a))"
  using assms SetTimezone_eq [OF assms(1), of c "arg_timezone a"]
  by (simp_all add: Let_def timezone_applied_def timezone_effects_def)

lemma after_find_specs:
  assumes "knowledge_base eng7 = fst (timezone_applied c a)"
  shows "(case arg_filter_file a of
            None \<Rightarrow> Inr None
          | Some f \<Rightarrow>
              if f = [] then Inr None
              else (let path_attributes = GetPathAttributes (knowledge_base eng7) in
                    case BuildFindSpecsFromFile c f path_attributes of
                      Inl e \<Rightarrow> Inl e
                    | Inr specs \<Rightarrow> Inr (Some specs))) = filter_find_specs c a"
  using assms by (simp add: filter_find_specs_def Let_def split: option.splits)

lemma after_session:
  assumes "fe_filter_expression fe7 = fe_filter_expression fe"
    and "fe_debug_mode fe7 = fe_debug_mode fe"
  shows "CreateSession c fe7 (arg_command_line_arguments a) (arg_filter_file a)
           (resolved_expression c a) (arg_preferred_encoding a) (arg_preferred_year a) =
         (case GetParserAndPluginNames c (resolved_expression c a) of
            Inl e \<Rightarrow> Inl e
          | Inr names \<Rightarrow> Inr (created_session c fe a names))"
  using assms by (simp add: CreateSession_def created_session_def split: sum.splits)

lemma ProcessSources_outcomes [case_names invalid raised dispatched]:
  fixes c :: collaborators and fe :: frontend and a :: arguments
  defines "w \<equiv> storage_effects c (fe_storage_file_path fe)"
  defines "new_engine \<equiv> CreateEngine c fe (effective_single_process_mode a)"
  assumes invalid: "\<And>e.
      snd (CheckStorageFile c fe (fe_storage_file_path fe)) = Some e \<Longrightarrow>
      P (fe\<lparr>effects := effects fe @ w\<rparr>, Inl e)"
    and raised: "\<And>e kb pn hn rest.
      validated c fe \<Longrightarrow>
      preprocess_calls rest = [] \<Longrightarrow>
      dispatches rest = [] \<Longrightarrow>
      timezone_calls rest = [] \<or> timezone_calls rest
         = [selected_timezone (fst (preprocessed c a)) (arg_timezone a)] \<Longrightarrow>
      raised_by_collaborator c a e \<Longrightarrow>
      kb = fst (preprocessed c a) \<or> kb = fst (timezone_applied c a) \<Longrightarrow>
      P (fe\<lparr>fe_engine := Some (new_engine\<lparr>knowledge_base := kb\<rparr>),
             fe_parser_names := pn, fe_hasher_names := hn,
             effects := effects fe @ w @ preprocessing_effects c a @ rest\<rparr>, Inl e)"
    and dispatched: "\<And>parsers hn ffs names d.
      validated c fe \<Longrightarrow>
      preprocessing_outcome c (snd (preprocessed c a)) = None \<Longrightarrow>
      GetParsers c (resolved_expression c a) = Inr parsers \<Longrightarrow>
      GetHasherNamesFromString c (arg_hasher_names_string a) = Inr hn \<Longrightarrow>
      uncaught ValueError (snd (timezone_applied c a)) = None \<Longrightarrow>
      filter_find_specs c a = Inr ffs \<Longrightarrow>
      GetParserAndPluginNames c (resolved_expression c a) = Inr names \<Longrightarrow>
      d_engine d = new_engine\<lparr>knowledge_base := fst (timezone_applied c a)\<rparr> \<Longrightarrow>
      d_storage_writer d
        = ZIPStorageFileWriter (created_session c fe a names) (fe_storage_file_path fe) \<Longrightarrow>
      d_parser_filter_expression d = resolved_expression c a \<Longrightarrow>
      d_session_identifier d
        = (if effective_single_process_mode a then None
           else Some (new_session_identifier c)) \<Longrightarrow>
      d_source_path_specs d = arg_source_path_specs a \<Longrightarrow>
      d_filter_find_specs d = ffs \<Longrightarrow>
      P (fe\<lparr>fe_engine := Some (new_engine\<lparr>knowledge_base := fst (timezone_applied c a)\<rparr>),
             fe_parser_names := Some (map snd parsers), fe_hasher_names := hn,
             effects := effects fe @ w @ preprocessing_effects c a @ derivation_effects c a
               @ timezone_effects c a @ [starting_extraction a, Call_ProcessSources d]\<rparr>,
         engine_ProcessSources c d)"
  shows "P (ProcessSources c fe a)"
proof (rule ProcessSources_cases [of c fe P a], goal_cases)
  case (1 fe1 e)
  from after_validation [OF 1] invalid [of e] show ?case
    by (simp add: w_def)
next
  case (2 fe1 fe3 e)
  note v = after_validation [OF 2(1)]
  note p = after_preprocessing [OF v(1) 2(2)]
  have "P (fe\<lparr>fe_engine := Some (new_engine\<lparr>knowledge_base := fst (preprocessed c a)\<rparr>),
             fe_parser_names := fe_parser_names fe, fe_hasher_names := fe_hasher_names fe,
             effects := effects fe @ w @ preprocessing_effects c a @ []\<rparr>, Inl e)"
    using v(2) p(2) by (intro raised) (simp_all add: validated_def raised_by_collaborator_def)
  then show ?case
    using p(1) by (cases fe) (simp add: w_def new_engine_def)
next
  case (3 fe1 fe3 eng e)
  note v = after_validation [OF 3(1)]
  note p = after_preprocessing [OF v(1) 3(2)]
  have k: "knowledge_base eng = fst (preprocessed c a)"
    using 3(3) p(1) by auto
  note d = after_derivation [OF k]
  have "P (fe\<lparr>fe_engine := Some (new_engine\<lparr>knowledge_base := fst (preprocessed c a)\<rparr>),
             fe_parser_names := Some [], fe_hasher_names := fe_hasher_names fe,
             effects := effects fe @ w @ preprocessing_effects c a @ derivation_effects c a\<rparr>,
           Inl e)"
    using v(2) 3(4) [unfolded d(1)]
    by (intro raised) (simp_all add: validated_def raised_by_collaborator_def)
  then show ?case
    unfolding d(1) d(2) using p(1) by (cases fe) (simp add: w_def new_engine_def)
next
  case (4 fe1 fe3 eng parsers e)
  note v = after_validation [OF 4(1)]
  note p = after_preprocessing [OF v(1) 4(2)]
  have k: "knowledge_base eng = fst (preprocessed c a)"
    using 4(3) p(1) by auto
  note d = after_derivation [OF k]
  have "P (fe\<lparr>fe_engine := Some (new_engine\<lparr>knowledge_base := fst (preprocessed c a)\<rparr>),
             fe_parser_names := Some (map snd parsers), fe_hasher_names := [],
             effects := effects fe @ w @ preprocessing_effects c a @ derivation_effects c a\<rparr>,
           Inl e)"
    using v(2) 4(5)
    by (intro raised) (simp_all add: validated_def raised_by_collaborator_def)
  then show ?case
    unfolding d(1) d(2) using p(1) by (cases fe) (simp add: w_def new_engine_def)
next
  case (5 fe1 fe3 eng parsers hasher_names fe7 e)
  note v = after_validation [OF 5(1)]
  note p = after_preprocessing [OF v(1) 5(2)]
  have k: "knowledge_base eng = fst (preprocessed c a)"
    using 5(3) p(1) by auto
  note d = after_derivation [OF k]
  have x: "fe_engine (fe3\<lparr>effects := effects fe3 @ derivation_effects c a,
      fe_parser_names := Some (map snd parsers), fe_hasher_names := hasher_names\<rparr>) = Some eng"
    using 5(3) by simp
  note t = after_timezone [OF x k 5(6) [unfolded d(1) d(2)]]
  have "P (fe\<lparr>fe_engine := Some (new_engine\<lparr>knowledge_base := fst (timezone_applied c a)\<rparr>),
             fe_parser_names := Some (map snd parsers), fe_hasher_names := hasher_names,
             effects := effects fe @ w @ preprocessing_effects c a
               @ (derivation_effects c a @ timezone_effects c a)\<rparr>,
           Inl e)"
    using v(2) t(2)
    by (intro raised) (simp_all add: validated_def raised_by_collaborator_def)
  then show ?case
    using p(1) t(1) 5(3) by (cases fe) (auto simp: w_def new_engine_def)
next
  case (6 fe1 fe3 eng parsers hasher_names fe7 eng7 e)
  note v = after_validation [OF 6(1)]
  note p = after_preprocessing [OF v(1) 6(2)]
  have k: "knowledge_base eng = fst (preprocessed c a)"
    using 6(3) p(1) by auto
  note d = after_derivation [OF k]
  have x: "fe_engine (fe3\<lparr>effects := effects fe3 @ derivation_effects c a,
      fe_parser_names := Some (map snd parsers), fe_hasher_names := hasher_names\<rparr>) = Some eng"
    using 6(3) by simp
  note t = after_timezone [OF x k 6(6) [unfolded d(1) d(2)]]
  have k7: "knowledge_base eng7 = fst (timezone_applied c a)"
    using 6(7) t(1) by auto
  note f = 6(8) [unfolded after_find_specs [OF k7]]
  have "P (fe\<lparr>fe_engine := Some (new_engine\<lparr>knowledge_base := fst (timezone_applied c a)\<rparr>),
             fe_parser_names := Some (map snd parsers), fe_hasher_names := hasher_names,
             effects := effects fe @ w @ preprocessing_effects c a
               @ (derivation_effects c a @ timezone_effects c a)\<rparr>,
           Inl e)"
    using v(2) f
    by (intro raised) (simp_all add: validated_def raised_by_collaborator_def)
  then show ?case
    using p(1) t(1) 6(3) by (cases fe) (auto simp: w_def new_engine_def)
next
  case (7 fe1 fe3 eng parsers hasher_names fe7 eng7 ffs e)
  note v = after_validation [OF 7(1)]
  note p = after_preprocessing [OF v(1) 7(2)]
  have k: "knowledge_base eng = fst (preprocessed c a)"
    using 7(3) p(1) by auto
  note d = after_derivation [OF k]
  have x: "fe_engine (fe3\<lparr>effects := effects fe3 @ derivation_effects c a,
      fe_parser_names := Some (map snd parsers), fe_hasher_names := hasher_names\<rparr>) = Some eng"
    using 7(3) by simp
  note t = after_timezone [OF x k 7(6) [unfolded d(1) d(2)]]
  have k7: "knowledge_base eng7 = fst (timezone_applied c a)"
    using 7(7) t(1) by auto
  note f = 7(8) [unfolded after_find_specs [OF k7]]
  have "fe_filter_expression fe7 = fe_filter_expression fe"
    and "fe_debug_mode fe7 = fe_debug_mode fe"
    using p(1) t(1) by simp_all
  note cs = 7(9) [unfolded d(1) after_session [OF this]]
  have "P (fe\<lparr>fe_engine := Some (new_engine\<lparr>knowledge_base := fst (timezone_applied c a)\<rparr>),
             fe_parser_names := Some (map snd parsers), fe_hasher_names := hasher_names,
             effects := effects fe @ w @ preprocessing_effects c a
               @ (derivation_effects c a @ timezone_effects c a)\<rparr>,
           Inl e)"
    using v(2) cs
    by (intro raised) (auto simp: validated_def raised_by_collaborator_def split: sum.splits)
  then show ?case
    using p(1) t(1) 7(3) by (cases fe) (auto simp: w_def new_engine_def)
next
  case (8 fe1 fe3 eng parsers hasher_names fe7 eng7 ffs session d)
  note v = after_validation [OF 8(1)]
  note p = after_preprocessing [OF v(1) 8(2)]
  have k: "knowledge_base eng = fst (preprocessed c a)"
    using 8(3) p(1) by auto
  note d = after_derivation [OF k]
  have x: "fe_engine (fe3\<lparr>effects := effects fe3 @ derivation_effects c a,
      fe_parser_names := Some (map snd parsers), fe_hasher_names := hasher_names\<rparr>) = Some eng"
    using 8(3) by simp
  note t = after_timezone [OF x k 8(6) [unfolded d(1) d(2)]]
  have k7: "knowledge_base eng7 = fst (timezone_applied c a)"
    using 8(7) t(1) by auto
  note f = 8(8) [unfolded after_find_specs [OF k7]]
  have fields: "fe_filter_expression fe7 = fe_filter_expression fe"
    "fe_debug_mode fe7 = fe_debug_mode fe"
    using p(1) t(1) by simp_all
  have sp: "fe_storage_file_path fe7 = fe_storage_file_path fe"
    using p(1) t(1) by simp
  note cs = 8(9) [unfolded d(1) after_session [OF fields]]
  then obtain names where names: "GetParserAndPluginNames c (resolved_expression c a) = Inr names"
    and session: "session = created_session c fe a names"
    by (auto split: sum.splits)
  have e7: "eng7 = new_engine\<lparr>knowledge_base := fst (timezone_applied c a)\<rparr>"
    using 8(7) 8(3) p(1) t(1) by (auto simp: new_engine_def)
  have "P (fe\<lparr>fe_engine := Some (new_engine\<lparr>knowledge_base := fst (timezone_applied c a)\<rparr>),
             fe_parser_names := Some (map snd parsers), fe_hasher_names := hasher_names,
             effects := effects fe @ w @ preprocessing_effects c a @ derivation_effects c a
               @ timezone_effects c a @ [starting_extraction a, Call_ProcessSources d]\<rparr>,
           engine_ProcessSources c d)"
  proof (intro dispatched)
    show "validated c fe"
      using v(2) by (simp add: validated_def)
    show "preprocessing_outcome c (snd (preprocessed c a)) = None"
      using p(2) by simp
    show "GetParsers c (resolved_expression c a) = Inr parsers"
      using 8(4) unfolding d(1) .
    show "GetHasherNamesFromString c (arg_hasher_names_string a) = Inr hasher_names"
      by (rule 8(5))
    show "uncaught ValueError (snd (timezone_applied c a)) = None"
      using t(2) by simp
    show "filter_find_specs c a = Inr ffs"
      by (rule f)
    show "GetParserAndPluginNames c (resolved_expression c a) = Inr names"
      by (rule names)
    show "d_engine d = new_engine\<lparr>knowledge_base := fst (timezone_applied c a)\<rparr>"
      using 8(10) e7 by simp
    show "d_storage_writer d
        = ZIPStorageFileWriter (created_session c fe a names) (fe_storage_file_path fe)"
      using 8(11) session sp by simp
    show "d_parser_filter_expression d = resolved_expression c a"
      using 8(12) unfolding d(1) .
    show "d_session_identifier d
        = (if effective_single_process_mode a then None else Some (new_session_identifier c))"
      using 8(13) session
      by (simp add: effective_single_process_mode_def created_session_def)
    show "d_source_path_specs d = arg_source_path_specs a"
      by (rule 8(14))
    show "d_filter_find_specs d = ffs"
      by (rule 8(15))
  qed
  then show ?case
    using p(1) t(1) 8(3)
    by (cases fe)
      (auto simp: w_def new_engine_def starting_extraction_def
        effective_single_process_mode_def)
qed

lemma ProcessSources_run [case_names invalid raised dispatched]:
  fixes c :: collaborators and fe :: frontend and a :: arguments
  assumes invalid: "\<And>e.
      snd (CheckStorageFile c fe (fe_storage_file_path fe)) = Some e \<Longrightarrow>
      ProcessSources c fe a = (fe\<lparr>effects := effects fe @ storage_effects c (fe_storage_file_path fe)\<rparr>, Inl e) \<Longrightarrow> thesis"
    and raised: "\<And>e kb pn hn rest.
      validated c fe \<Longrightarrow>
      preprocess_calls rest = [] \<Longrightarrow>
      dispatches rest = [] \<Longrightarrow>
      timezone_calls rest = [] \<or> timezone_calls rest
         = [selected_timezone (fst (preprocessed c a)) (arg_timezone a)] \<Longrightarrow>
      raised_by_collaborator c a e \<Longrightarrow>
      ProcessSources c fe a = (fe\<lparr>fe_engine := Some ((CreateEngine c fe (effective_single_process_mode a))\<lparr>knowledge_base := kb\<rparr>),
             fe_parser_names := pn, fe_hasher_names := hn,
             effects := effects fe @ storage_effects c (fe_storage_file_path fe) @ preprocessing_effects c a @ rest\<rparr>, Inl e) \<Longrightarrow> thesis"
    and dispatched: "\<And>parsers hn ffs names d.
      validated c fe \<Longrightarrow>
      preprocessing_outcome c (snd (preprocessed c a)) = None \<Longrightarrow>
      GetParsers c (resolved_expression c a) = Inr parsers \<Longrightarrow>
      GetHasherNamesFromString c (arg_hasher_names_string a) = Inr hn \<Longrightarrow>
      uncaught ValueError (snd (timezone_applied c a)) = None \<Longrightarrow>
      filter_find_specs c a = Inr ffs \<Longrightarrow>
      GetParserAndPluginNames c (resolved_expression c a) = Inr names \<Longrightarrow>
      d_engine d = (CreateEngine c fe (effective_single_process_mode a))\<lparr>knowledge_base := fst (timezone_applied c a)\<rparr> \<Longrightarrow>
      d_storage_writer d
        = ZIPStorageFileWriter (created_session c fe a names) (fe_storage_file_path fe) \<Longrightarrow>
      d_parser_filter_expression d = resolved_expression c a \<Longrightarrow>
      d_session_identifier d
        = (if effective_single_process_mode a then None
           else Some (new_session_identifier c)) \<Longrightarrow>
      d_source_path_specs d = arg_source_path_specs a \<Longrightarrow>
      d_filter_find_specs d = ffs \<Longrightarrow>
      ProcessSources c fe a = (fe\<lparr>fe_engine := Some ((CreateEngine c fe (effective_single_process_mode a))\<lparr>knowledge_base := fst (timezone_applied c a)\<rparr>),
             fe_parser_names := Some (map snd parsers), fe_hasher_names := hn,
             effects := effects fe @ storage_effects c (fe_storage_file_path fe) @ preprocessing_effects c a @ derivation_effects c a
               @ timezone_effects c a @ [starting_extraction a, Call_ProcessSources d]\<rparr>,
         engine_ProcessSources c d) \<Longrightarrow> thesis"
  shows thesis
proof -
  have "ProcessSources c fe a = ProcessSources c fe a \<longrightarrow> thesis"
  proof (rule ProcessSources_outcomes
      [where P = "\<lambda>r. ProcessSources c fe a = r \<longrightarrow> thesis"], goal_cases)
    case 1
    then show ?case using invalid by blast
  next
    case 2
    then show ?case using raised by blast
  next
    case 3
    then show ?case using dispatched by blast
  qed
  then show thesis
    by simp
qed

lemma ProcessSources_preprocessing_raised:
  assumes "validated c fe" and "preprocessing_outcome c (snd (preprocessed c a)) = Some x"
  shows "ProcessSources c fe a =
     (fe\<lparr>fe_engine := Some ((CreateEngine c fe (effective_single_process_mode a))
             \<lparr>knowledge_base := fst (preprocessed c a)\<rparr>),
         effects := effects fe @ storage_effects c (fe_storage_file_path fe)
           @ preprocessing_effects c a\<rparr>, Inl x)"
proof (rule ProcessSources_cases [where c = c and fe = fe and a = a and P = "\<lambda>r. r =
     (fe\<lparr>fe_engine := Some ((CreateEngine c fe (effective_single_process_mode a))
             \<lparr>knowledge_base := fst (preprocessed c a)\<rparr>),
         effects := effects fe @ storage_effects c (fe_storage_file_path fe)
           @ preprocessing_effects c a\<rparr>, Inl x)"], goal_cases)
  case (1 fe1 e)
  with assms(1) show ?case
    by (simp add: validated_def)
next
  case (2 fe1 fe3 e)
  note v = after_validation [OF 2(1)]
  note p = after_preprocessing [OF v(1) 2(2)]
  from p assms(2) show ?case
    by simp
next
  case (3 fe1 fe3)
  note v = after_validation [OF 3(1)]
  note p = after_preprocessing [OF v(1) 3(2)]
  from p(2) assms(2) show ?case
    by simp
next
  case (4 fe1 fe3)
  note v = after_validation [OF 4(1)]
  note p = after_preprocessing [OF v(1) 4(2)]
  from p(2) assms(2) show ?case
    by simp
next
  case (5 fe1 fe3)
  note v = after_validation [OF 5(1)]
  note p = after_preprocessing [OF v(1) 5(2)]
  from p(2) assms(2) show ?case
    by simp
next
  case (6 fe1 fe3)
  note v = after_validation [OF 6(1)]
  note p = after_preprocessing [OF v(1) 6(2)]
  from p(2) assms(2) show ?case
    by simp
next
  case (7 fe1 fe3)
  note v = after_validation [OF 7(1)]
  note p = after_preprocessing [OF v(1) 7(2)]
  from p(2) assms(2) show ?case
    by simp
next
  case (8 fe1 fe3)
  note v = after_validation [OF 8(1)]
  note p = after_preprocessing [OF v(1) 8(2)]
  from p(2) assms(2) show ?case
    by simp
qed

lemma ProcessSources_engine:
  assumes "validated c fe"
  shows "\<exists>kb. fe_engine (fst (ProcessSources c fe a))
            = Some ((CreateEngine c fe (effective_single_process_mode a))
                \<lparr>knowledge_base := kb\<rparr>)
          \<and> (kb = fst (preprocessed c a) \<or> kb = fst (timezone_applied c a))"
proof (rule ProcessSources_outcomes, goal_cases)
  case (1 e)
  with assms show ?case
    by (simp add: validated_def)
next
  case 2
  then show ?case
    by auto
next
  case 3
  then show ?case
    by auto
qed

lemma selected_timezone_cases:
  "GetValue kb ''time_zone_str'' = Some k \<Longrightarrow> k \<noteq> [] \<Longrightarrow> selected_timezone kb tz = k"
  "\<not> truthy (GetValue kb ''time_zone_str'') \<Longrightarrow> tz = Some t \<Longrightarrow> t \<noteq> [] \<Longrightarrow>
     selected_timezone kb tz = t"
  "\<not> truthy (GetValue kb ''time_zone_str'') \<Longrightarrow> \<not> truthy tz \<Longrightarrow>
     selected_timezone kb tz = ''UTC''"
  by (auto simp: selected_timezone_def truthy_def split: option.splits)

lemma drop_effects [simp]: "drop (length xs) (xs @ ys) = ys"
  by simp

lemma engine_class_CreateEngine [simp]:
  "engine_class (CreateEngine c fe b) = (if b then SingleProcessEngine else MultiProcessEngine)"
  by (simp add: CreateEngine_def)

lemma hd_in_set: "xs \<noteq> [] \<Longrightarrow> hd xs \<in> set xs"
  by simp

section \<open>The storage file\<close>

text \<open>
  Claim C4. \<open>CheckStorageFile\<close> raises \<open>BadConfigOption\<close> (the spec's InvalidConfiguration)
  for a path that exists and is not a regular file, and for a path whose containing
  directory is not writable. For a path that exists, is a regular file and lies in a
  writable directory it returns normally, and its only effect is the warning that the
  storage file is appended to. When the storage file path of the front-end fails the
  check, \<open>ProcessSources\<close> raises the exception of the check, leaves the engine attribute
  as it was and has no effect but those of the check; when the path passes, an engine is
  built.
\<close>

theorem CheckStorageFile_validation:
  "(os_path_exists c p \<and> \<not> os_path_isfile c p \<longrightarrow>
      map_option class_of (snd (CheckStorageFile c fe (Some p))) = Some BadConfigOption)
   \<and> (\<not> os_access_W_OK c (containing_directory c p) \<longrightarrow>
      map_option class_of (snd (CheckStorageFile c fe (Some p))) = Some BadConfigOption)
   \<and> (os_path_exists c p \<and> os_path_isfile c p \<and> os_access_W_OK c (containing_directory c p) \<longrightarrow>
      CheckStorageFile c fe (Some p) = (fe\<lparr>effects := effects fe @ [appending_warning]\<rparr>, None))
   \<and> (\<not> validated c fe \<longrightarrow>
      (\<exists>e. snd (CheckStorageFile c fe (fe_storage_file_path fe)) = Some e
         \<and> snd (ProcessSources c fe a) = Inl e)
      \<and> fe_engine (fst (ProcessSources c fe a)) = fe_engine fe
      \<and> run_effects c fe a = storage_effects c (fe_storage_file_path fe))
   \<and> (validated c fe \<longrightarrow>
      (\<exists>kb. fe_engine (fst (ProcessSources c fe a))
         = Some ((CreateEngine c fe (effective_single_process_mode a))\<lparr>knowledge_base := kb\<rparr>)))"
proof -
  have by_method: "(os_path_exists c p \<and> \<not> os_path_isfile c p \<longrightarrow>
      map_option class_of (snd (CheckStorageFile c fe (Some p))) = Some BadConfigOption)
   \<and> (\<not> os_access_W_OK c (containing_directory c p) \<longrightarrow>
      map_option class_of (snd (CheckStorageFile c fe (Some p))) = Some BadConfigOption)
   \<and> (os_path_exists c p \<and> os_path_isfile c p \<and> os_access_W_OK c (containing_directory c p) \<longrightarrow>
      CheckStorageFile c fe (Some p) = (fe\<lparr>effects := effects fe @ [appending_warning]\<rparr>, None))"
    by (simp add: CheckStorageFile_def containing_directory_def Let_def logging_def
        appending_warning_def)
  have by_run: "(\<not> validated c fe \<longrightarrow>
      (\<exists>e. snd (CheckStorageFile c fe (fe_storage_file_path fe)) = Some e
         \<and> snd (ProcessSources c fe a) = Inl e)
      \<and> fe_engine (fst (ProcessSources c fe a)) = fe_engine fe
      \<and> run_effects c fe a = storage_effects c (fe_storage_file_path fe))
   \<and> (validated c fe \<longrightarrow>
      (\<exists>kb. fe_engine (fst (ProcessSources c fe a))
         = Some ((CreateEngine c fe (effective_single_process_mode a))\<lparr>knowledge_base := kb\<rparr>)))"
    by (cases rule: ProcessSources_run [of c fe a])
      (auto simp: run_effects_def validated_def)
  from by_method by_run show ?thesis
    by blast
qed

theorem CheckStorageFile_validation_witness:
  "os_path_exists example_collaborators ''/cases/old''
   \<and> \<not> os_path_isfile example_collaborators ''/cases/old''
   \<and> map_option class_of (snd (CheckStorageFile example_collaborators init (Some ''/cases/old'')))
       = Some BadConfigOption
   \<and> \<not> os_access_W_OK example_collaborators
         (containing_directory example_collaborators ''/readonly/out.plaso'')
   \<and> map_option class_of
         (snd (CheckStorageFile example_collaborators init (Some ''/readonly/out.plaso'')))
       = Some BadConfigOption
   \<and> os_path_exists example_collaborators ''/cases/out.plaso''
   \<and> os_path_isfile example_collaborators ''/cases/out.plaso''
   \<and> os_access_W_OK example_collaborators
         (containing_directory example_collaborators ''/cases/out.plaso'')
   \<and> CheckStorageFile example_collaborators init (Some ''/cases/out.plaso'')
       = (init\<lparr>effects := effects init @ [appending_warning]\<rparr>, None)
   \<and> \<not> validated example_collaborators example_rejected_frontend
   \<and> fe_engine (fst (ProcessSources example_collaborators example_rejected_frontend
         example_arguments)) = fe_engine example_rejected_frontend
   \<and> validated example_collaborators example_frontend
   \<and> fe_engine (fst (ProcessSources example_collaborators example_frontend example_arguments))
       \<noteq> None"
proof -
  have a: "os_path_exists example_collaborators ''/cases/old''"
    "\<not> os_path_isfile example_collaborators ''/cases/old''"
    by code_simp+
  have b: "\<not> os_access_W_OK example_collaborators
      (containing_directory example_collaborators ''/readonly/out.plaso'')"
    by code_simp
  have c: "os_path_exists example_collaborators ''/cases/out.plaso''"
    "os_path_isfile example_collaborators ''/cases/out.plaso''"
    "os_access_W_OK example_collaborators
       (containing_directory example_collaborators ''/cases/out.plaso'')"
    by code_simp+
  have d: "\<not> validated example_collaborators example_rejected_frontend"
    by code_simp
  have e: "validated example_collaborators example_frontend"
    by code_simp
  note r1 = CheckStorageFile_validation
    [where c = example_collaborators and p = "''/cases/old''" and fe = init
       and a = example_arguments]
  note r2 = CheckStorageFile_validation
    [where c = example_collaborators and p = "''/readonly/out.plaso''" and fe = init
       and a = example_arguments]
  note r3 = CheckStorageFile_validation
    [where c = example_collaborators and p = "''/cases/out.plaso''" and fe = init
       and a = example_arguments]
  note r4 = CheckStorageFile_validation
    [where c = example_collaborators and p = "''/cases/old''"
       and fe = example_rejected_frontend and a = example_arguments]
  note r5 = CheckStorageFile_validation
    [where c = example_collaborators and p = "''/cases/old''"
       and fe = example_frontend and a = example_arguments]
  have 1: "map_option class_of
      (snd (CheckStorageFile example_collaborators init (Some ''/cases/old'')))
       = Some BadConfigOption"
    using r1 a by blast
  have 2: "map_option class_of
         (snd (CheckStorageFile example_collaborators init (Some ''/readonly/out.plaso'')))
       = Some BadConfigOption"
    using r2 b by blast
  have 3: "CheckStorageFile example_collaborators init (Some ''/cases/out.plaso'')
       = (init\<lparr>effects := effects init @ [appending_warning]\<rparr>, None)"
    using r3 c by blast
  have 4: "fe_engine (fst (ProcessSources example_collaborators example_rejected_frontend
         example_arguments)) = fe_engine example_rejected_frontend"
    using r4 d by blast
  have 5: "fe_engine (fst (ProcessSources example_collaborators example_frontend
      example_arguments)) \<noteq> None"
    using r5 e by auto
  from a b c d e 1 2 3 4 5 show ?thesis
    by blast
qed

section \<open>The engine and preprocessing\<close>

text \<open>
  Claim C5. For the source type of a single file, whatever \<^verbatim>\<open>single_process_mode\<close> the
  caller gives: the engine a validated run builds is a \<open>SingleProcessEngine\<close>, and every
  dispatch of the run goes to a \<open>SingleProcessEngine\<close>, in the single-process form of the
  call (no session identifier).
\<close>

theorem file_source_forces_single_process_mode:
  "arg_source_type a = SOURCE_TYPE_FILE \<longrightarrow>
     (validated c fe \<longrightarrow>
        (\<exists>eng. fe_engine (fst (ProcessSources c fe a)) = Some eng
           \<and> engine_class eng = SingleProcessEngine))
     \<and> (\<forall>d \<in> set (dispatches (run_effects c fe a)).
           engine_class (d_engine d) = SingleProcessEngine \<and> d_session_identifier d = None)"
  by (cases rule: ProcessSources_run [of c fe a])
    (simp_all add: run_effects_def validated_def effective_single_process_mode_def)

theorem file_source_forces_single_process_mode_witness:
  "arg_source_type example_file_arguments = SOURCE_TYPE_FILE
   \<and> \<not> arg_single_process_mode example_file_arguments
   \<and> validated example_collaborators example_frontend
   \<and> map_option engine_class (fe_engine (fst
         (ProcessSources example_collaborators example_frontend example_file_arguments)))
       = Some SingleProcessEngine
   \<and> dispatches (run_effects example_collaborators example_frontend example_file_arguments)
       \<noteq> []
   \<and> engine_class (d_engine (hd (dispatches
         (run_effects example_collaborators example_frontend example_file_arguments))))
       = SingleProcessEngine"
proof -
  have t: "arg_source_type example_file_arguments = SOURCE_TYPE_FILE"
    "\<not> arg_single_process_mode example_file_arguments"
    by (simp_all add: example_arguments_def example_file_arguments_def)
  have v: "validated example_collaborators example_frontend"
    by code_simp
  have n: "dispatches (run_effects example_collaborators example_frontend
      example_file_arguments) \<noteq> []"
    by code_simp
  note r = file_source_forces_single_process_mode
    [of example_file_arguments example_collaborators example_frontend, THEN mp, OF t(1)]
  from r [THEN conjunct1, THEN mp, OF v]
  have e: "map_option engine_class (fe_engine (fst
      (ProcessSources example_collaborators example_frontend example_file_arguments)))
      = Some SingleProcessEngine"
    by auto
  from r [THEN conjunct2, THEN bspec, OF hd_in_set [OF n]] t v e n
  show ?thesis
    by simp
qed

text \<open>
  Claim C6 as stated, for every call, fails on the example: the source is a storage
  media image, so the test for preprocessing would hold, but the storage file path names
  a directory, the check of the path raises before the engine is built, and the run
  calls the engine's \<open>PreprocessSources\<close> not at all.
\<close>

theorem preprocessing_not_invoked_counterexample:
  "arg_source_type example_arguments = SOURCE_TYPE_STORAGE_MEDIA_IMAGE
   \<and> fe_storage_file_path example_rejected_frontend = Some ''/cases/old''
   \<and> os_path_exists example_collaborators ''/cases/old''
   \<and> \<not> os_path_isfile example_collaborators ''/cases/old''
   \<and> ProcessSources example_collaborators example_rejected_frontend example_arguments
     = (example_rejected_frontend,
        Inl (Exception BadConfigOption
          ''Storage file: /cases/old already exists and is not a file.''))
   \<and> fe_engine example_rejected_frontend = None
   \<and> preprocess_calls (run_effects example_collaborators example_rejected_frontend
        example_arguments) = []"
  by code_simp

text \<open>
  Claim C6, as amended. A run whose storage file path passes the check calls the engine's
  \<open>PreprocessSources\<close> exactly when preprocessing is forced or the source type is a
  directory, a storage media device or a storage media image. It then calls it once,
  with the source path specifications, on the knowledge base of the new engine, and the
  knowledge base the call returns is the one the engine keeps (up to the time zone step
  that may follow). Otherwise the run makes no such call and the engine keeps its new
  knowledge base (up to the time zone step). A run whose storage file path fails the
  check raises the exception of the check, leaves the engine attribute as it was and
  makes no such call. The method \<open>PreprocessSources\<close> itself hands the engine's knowledge
  base to the engine's \<open>PreprocessSources\<close> and stores what it returns. The source type of
  a single file is none of the three.
\<close>

theorem preprocessing_is_invoked_iff_after_validation:
  "(validated c fe
      \<and> (arg_force_preprocessing a
          \<or> arg_source_type a \<in> {SOURCE_TYPE_DIRECTORY, SOURCE_TYPE_STORAGE_MEDIA_DEVICE,
               SOURCE_TYPE_STORAGE_MEDIA_IMAGE}) \<longrightarrow>
      preprocess_calls (run_effects c fe a) = [arg_source_path_specs a]
      \<and> (\<exists>kb. fe_engine (fst (ProcessSources c fe a))
             = Some ((CreateEngine c fe (effective_single_process_mode a))
                 \<lparr>knowledge_base := kb\<rparr>)
           \<and> (kb = fst (engine_PreprocessSources c (arg_source_path_specs a)
                         (new_knowledge_base c))
               \<or> (\<exists>z. kb = fst (knowledge_base_SetTimezone c z
                     (fst (engine_PreprocessSources c (arg_source_path_specs a)
                        (new_knowledge_base c))))))))
   \<and> (validated c fe
      \<and> \<not> (arg_force_preprocessing a
          \<or> arg_source_type a \<in> {SOURCE_TYPE_DIRECTORY, SOURCE_TYPE_STORAGE_MEDIA_DEVICE,
               SOURCE_TYPE_STORAGE_MEDIA_IMAGE}) \<longrightarrow>
      preprocess_calls (run_effects c fe a) = []
      \<and> (\<exists>kb. fe_engine (fst (ProcessSources c fe a))
             = Some ((CreateEngine c fe (effective_single_process_mode a))
                 \<lparr>knowledge_base := kb\<rparr>)
           \<and> (kb = new_knowledge_base c
               \<or> (\<exists>z. kb = fst (knowledge_base_SetTimezone c z (new_knowledge_base c))))))
   \<and> (\<not> validated c fe \<longrightarrow>
      preprocess_calls (run_effects c fe a) = []
      \<and> fe_engine (fst (ProcessSources c fe a)) = fe_engine fe
      \<and> (\<exists>e. snd (CheckStorageFile c fe (fe_storage_file_path fe)) = Some e
            \<and> snd (ProcessSources c fe a) = Inl e))
   \<and> (fe_engine fe = Some eng \<longrightarrow>
      fe_engine (fst (PreprocessSources c fe s))
        = Some (eng\<lparr>knowledge_base := fst (engine_PreprocessSources c s (knowledge_base eng))\<rparr>)
      \<and> preprocess_calls (effects (fst (PreprocessSources c fe s)))
        = preprocess_calls (effects fe) @ [s])
   \<and> SOURCE_TYPE_FILE \<notin> {SOURCE_TYPE_DIRECTORY, SOURCE_TYPE_STORAGE_MEDIA_DEVICE,
        SOURCE_TYPE_STORAGE_MEDIA_IMAGE}"
proof -
  have types: "SOURCE_TYPE_FILE \<notin> {SOURCE_TYPE_DIRECTORY, SOURCE_TYPE_STORAGE_MEDIA_DEVICE,
        SOURCE_TYPE_STORAGE_MEDIA_IMAGE}"
    by (simp add: SOURCE_TYPE_FILE_def SOURCE_TYPE_DIRECTORY_def
        SOURCE_TYPE_STORAGE_MEDIA_DEVICE_def SOURCE_TYPE_STORAGE_MEDIA_IMAGE_def)
  have due: "preprocessing_due a \<longleftrightarrow> arg_force_preprocessing a
          \<or> arg_source_type a \<in> {SOURCE_TYPE_DIRECTORY, SOURCE_TYPE_STORAGE_MEDIA_DEVICE,
               SOURCE_TYPE_STORAGE_MEDIA_IMAGE}"
    by (simp add: preprocessing_due_def SOURCE_TYPES_TO_PREPROCESS_def)
  have calls: "preprocess_calls (run_effects c fe a) =
      (if validated c fe \<and> preprocessing_due a then [arg_source_path_specs a] else [])"
    by (cases rule: ProcessSources_run [of c fe a])
      (simp_all add: run_effects_def validated_def)
  have engine: "\<exists>kb. fe_engine (fst (ProcessSources c fe a))
             = Some ((CreateEngine c fe (effective_single_process_mode a))
                 \<lparr>knowledge_base := kb\<rparr>)
           \<and> (kb = fst (preprocessed c a)
               \<or> (\<exists>z. kb = fst (knowledge_base_SetTimezone c z (fst (preprocessed c a)))))"
    if "validated c fe"
    using ProcessSources_engine [OF that, of a] by (auto simp: timezone_applied_def)
  have invalid: "fe_engine (fst (ProcessSources c fe a)) = fe_engine fe
      \<and> (\<exists>e. snd (CheckStorageFile c fe (fe_storage_file_path fe)) = Some e
            \<and> snd (ProcessSources c fe a) = Inl e)"
    if "\<not> validated c fe"
    using that
    by (cases rule: ProcessSources_run [of c fe a]) (simp_all add: validated_def)
  have by_call: "fe_engine (fst (PreprocessSources c fe s))
        = Some (eng\<lparr>knowledge_base := fst (engine_PreprocessSources c s (knowledge_base eng))\<rparr>)
      \<and> preprocess_calls (effects (fst (PreprocessSources c fe s)))
        = preprocess_calls (effects fe) @ [s]"
    if "fe_engine fe = Some eng"
    using that by (simp add: PreprocessSources_eq)
  have 1: "preprocessing_due a \<Longrightarrow> fst (preprocessed c a)
      = fst (engine_PreprocessSources c (arg_source_path_specs a) (new_knowledge_base c))"
    and 2: "\<not> preprocessing_due a \<Longrightarrow> fst (preprocessed c a) = new_knowledge_base c"
    by (simp_all add: preprocessed_def)
  have A: "validated c fe \<and> preprocessing_due a \<longrightarrow>
      preprocess_calls (run_effects c fe a) = [arg_source_path_specs a]
      \<and> (\<exists>kb. fe_engine (fst (ProcessSources c fe a))
             = Some ((CreateEngine c fe (effective_single_process_mode a))
                 \<lparr>knowledge_base := kb\<rparr>)
           \<and> (kb = fst (engine_PreprocessSources c (arg_source_path_specs a)
                         (new_knowledge_base c))
               \<or> (\<exists>z. kb = fst (knowledge_base_SetTimezone c z
                     (fst (engine_PreprocessSources c (arg_source_path_specs a)
                        (new_knowledge_base c)))))))"
    using calls engine 1 by auto
  have B: "validated c fe \<and> \<not> preprocessing_due a \<longrightarrow>
      preprocess_calls (run_effects c fe a) = []
      \<and> (\<exists>kb. fe_engine (fst (ProcessSources c fe a))
             = Some ((CreateEngine c fe (effective_single_process_mode a))
                 \<lparr>knowledge_base := kb\<rparr>)
           \<and> (kb = new_knowledge_base c
               \<or> (\<exists>z. kb = fst (knowledge_base_SetTimezone c z (new_knowledge_base c)))))"
    using calls engine 2 by auto
  have C: "\<not> validated c fe \<longrightarrow>
      preprocess_calls (run_effects c fe a) = []
      \<and> fe_engine (fst (ProcessSources c fe a)) = fe_engine fe
      \<and> (\<exists>e. snd (CheckStorageFile c fe (fe_storage_file_path fe)) = Some e
            \<and> snd (ProcessSources c fe a) = Inl e)"
    using calls invalid by simp
  from A B C by_call types show ?thesis
    unfolding due [symmetric] by blast
qed

theorem preprocessing_is_invoked_iff_after_validation_witness:
  "validated example_collaborators example_frontend
   \<and> arg_source_type example_arguments = SOURCE_TYPE_STORAGE_MEDIA_IMAGE
   \<and> preprocess_calls (run_effects example_collaborators example_frontend example_arguments)
       = [[''/evidence/xp.dd'']]
   \<and> fe_engine (fst (ProcessSources example_collaborators example_frontend example_arguments))
       \<noteq> None
   \<and> \<not> arg_force_preprocessing example_file_arguments
   \<and> arg_source_type example_file_arguments = SOURCE_TYPE_FILE
   \<and> preprocess_calls (run_effects example_collaborators example_frontend example_file_arguments)
       = []
   \<and> \<not> validated example_collaborators example_rejected_frontend
   \<and> preprocess_calls (run_effects example_collaborators example_rejected_frontend
        example_arguments) = []
   \<and> fe_engine (fst (ProcessSources example_collaborators example_rejected_frontend
        example_arguments)) = None
   \<and> fe_engine example_built_frontend = Some (CreateEngine example_collaborators init True)
   \<and> fe_engine (fst (PreprocessSources example_collaborators example_built_frontend
        [''/evidence/xp.dd''])) = Some example_engine
   \<and> preprocess_calls (effects (fst (PreprocessSources example_collaborators
        example_built_frontend [''/evidence/xp.dd'']))) = [[''/evidence/xp.dd'']]"
proof -
  have v: "validated example_collaborators example_frontend"
    by code_simp
  have n: "\<not> validated example_collaborators example_rejected_frontend"
    "fe_engine example_rejected_frontend = None"
    by code_simp+
  have t: "arg_source_type example_arguments = SOURCE_TYPE_STORAGE_MEDIA_IMAGE"
    "arg_source_path_specs example_arguments = [''/evidence/xp.dd'']"
    "arg_source_type example_file_arguments = SOURCE_TYPE_FILE"
    "\<not> arg_force_preprocessing example_file_arguments"
    by (simp_all add: example_arguments_def example_file_arguments_def)
  have b: "fe_engine example_built_frontend = Some (CreateEngine example_collaborators init True)"
    "preprocess_calls (effects example_built_frontend) = []"
    by (simp_all add: example_built_frontend_def init_def preprocess_calls_def)
  have k: "(CreateEngine example_collaborators init True)
      \<lparr>knowledge_base := fst (engine_PreprocessSources example_collaborators
         [''/evidence/xp.dd''] (knowledge_base (CreateEngine example_collaborators init True)))\<rparr>
      = example_engine"
    by code_simp
  note r = preprocessing_is_invoked_iff_after_validation
  have due: "validated example_collaborators example_frontend
      \<and> (arg_force_preprocessing example_arguments
          \<or> arg_source_type example_arguments
               \<in> {SOURCE_TYPE_DIRECTORY, SOURCE_TYPE_STORAGE_MEDIA_DEVICE,
                    SOURCE_TYPE_STORAGE_MEDIA_IMAGE})"
    using v t(1) by simp
  have not_due: "validated example_collaborators example_frontend
      \<and> \<not> (arg_force_preprocessing example_file_arguments
          \<or> arg_source_type example_file_arguments
               \<in> {SOURCE_TYPE_DIRECTORY, SOURCE_TYPE_STORAGE_MEDIA_DEVICE,
                    SOURCE_TYPE_STORAGE_MEDIA_IMAGE})"
    using v t(3,4) r [THEN conjunct2, THEN conjunct2, THEN conjunct2, THEN conjunct2]
    by simp
  note 1 = r [where c = example_collaborators and fe = example_frontend
      and a = example_arguments, THEN conjunct1, THEN mp, OF due]
  note 2 = r [where c = example_collaborators and fe = example_frontend
      and a = example_file_arguments, THEN conjunct2, THEN conjunct1, THEN mp, OF not_due]
  note 3 = r [where c = example_collaborators and fe = example_rejected_frontend
      and a = example_arguments, THEN conjunct2, THEN conjunct2, THEN conjunct1, THEN mp,
      OF n(1)]
  note 4 = r [where c = example_collaborators and fe = example_built_frontend
      and eng = "CreateEngine example_collaborators init True"
      and s = "[''/evidence/xp.dd'']",
      THEN conjunct2, THEN conjunct2, THEN conjunct2, THEN conjunct1, THEN mp, OF b(1)]
  have 5: "preprocess_calls (run_effects example_collaborators example_frontend
      example_arguments) = [[''/evidence/xp.dd'']]"
    "fe_engine (fst (ProcessSources example_collaborators example_frontend example_arguments))
       \<noteq> None"
    using 1 t(2) by auto
  have 6: "preprocess_calls (run_effects example_collaborators example_frontend
      example_file_arguments) = []"
    using 2 by simp
  have 7: "preprocess_calls (run_effects example_collaborators example_rejected_frontend
        example_arguments) = []"
    "fe_engine (fst (ProcessSources example_collaborators example_rejected_frontend
        example_arguments)) = None"
    using 3 n(2) by simp_all
  have 8: "fe_engine (fst (PreprocessSources example_collaborators example_built_frontend
        [''/evidence/xp.dd''])) = Some example_engine"
    "preprocess_calls (effects (fst (PreprocessSources example_collaborators
        example_built_frontend [''/evidence/xp.dd'']))) = [[''/evidence/xp.dd'']]"
    using 4 k b(2) by simp_all
  from v t(1,3,4) n(1) b(1) 5 6 7 8 show ?thesis
    by blast
qed

text \<open>
  Claim C3. The handler of \<open>IOError\<close> in \<open>PreprocessSources\<close> formats the exception for
  its log line, \<^verbatim>\<open>u'{0:s}'.format(exception)\<close>, inside the handler. When the formatting
  raises, the exception it raises leaves the method, with the error not logged, and
  leaves a run of \<open>ProcessSources\<close> in which preprocessing is due: the run ends after the
  call of the engine's \<open>PreprocessSources\<close>, with no dispatch. When the formatting
  returns a text, the method logs the error and returns normally, with the knowledge
  base as the failed call left it; in a run the error is among the effects, an exception
  that leaves the run is one raised by a later collaborator (the registries, the time
  zone, the find specifications, the engine's own \<open>ProcessSources\<close>), and when the
  collaborators before the dispatch return normally, the run reaches its one dispatch,
  with the knowledge base the failed preprocessing left, after the time zone step.
\<close>

theorem preprocessing_IOError_handler:
  "(fe_engine fe = Some eng
      \<and> engine_PreprocessSources c s (knowledge_base eng) = (kb', Some e)
      \<and> class_of e = IOError \<and> format_exception c e = Inl x \<longrightarrow>
    PreprocessSources c fe s =
      (fe\<lparr>fe_engine := Some (eng\<lparr>knowledge_base := kb'\<rparr>),
          effects := effects fe @
            [Logging DEBUG ''Starting preprocessing.'', Call_PreprocessSources s]\<rparr>,
       Some x))
   \<and> (fe_engine fe = Some eng
      \<and> engine_PreprocessSources c s (knowledge_base eng) = (kb', Some e)
      \<and> class_of e = IOError \<and> format_exception c e = Inr formatted \<longrightarrow>
    PreprocessSources c fe s =
      (fe\<lparr>fe_engine := Some (eng\<lparr>knowledge_base := kb'\<rparr>),
          effects := effects fe @
            [Logging DEBUG ''Starting preprocessing.'', Call_PreprocessSources s,
             Logging ERROR (''Unable to preprocess with error: '' @ formatted)]\<rparr>,
       None))
   \<and> (validated c fe \<and> preprocessing_due a \<and> snd (preprocessed c a) = Some e
        \<and> class_of e = IOError \<and> format_exception c e = Inl x \<longrightarrow>
      snd (ProcessSources c fe a) = Inl x
      \<and> run_effects c fe a = storage_effects c (fe_storage_file_path fe) @
           [Logging DEBUG ''Starting preprocessing.'',
            Call_PreprocessSources (arg_source_path_specs a)]
      \<and> dispatches (run_effects c fe a) = [])
   \<and> (validated c fe \<and> preprocessing_due a \<and> snd (preprocessed c a) = Some e
        \<and> class_of e = IOError \<and> format_exception c e = Inr formatted \<longrightarrow>
      Logging ERROR (''Unable to preprocess with error: '' @ formatted)
        \<in> set (run_effects c fe a)
      \<and> (\<forall>x. snd (ProcessSources c fe a) = Inl x \<longrightarrow>
            GetParsers c (resolved_expression c a) = Inl x
            \<or> GetHasherNamesFromString c (arg_hasher_names_string a) = Inl x
            \<or> uncaught ValueError (snd (timezone_applied c a)) = Some x
            \<or> filter_find_specs c a = Inl x
            \<or> GetParserAndPluginNames c (resolved_expression c a) = Inl x
            \<or> (\<exists>d. dispatches (run_effects c fe a) = [d]
                  \<and> engine_ProcessSources c d = Inl x))
      \<and> ((\<exists>parsers. GetParsers c (resolved_expression c a) = Inr parsers)
          \<and> (\<exists>names. GetHasherNamesFromString c (arg_hasher_names_string a) = Inr names)
          \<and> uncaught ValueError (snd (timezone_applied c a)) = None
          \<and> (\<exists>specs. filter_find_specs c a = Inr specs)
          \<and> (\<exists>names. GetParserAndPluginNames c (resolved_expression c a) = Inr names) \<longrightarrow>
          (\<exists>d. dispatches (run_effects c fe a) = [d]
             \<and> snd (ProcessSources c fe a) = engine_ProcessSources c d
             \<and> knowledge_base (d_engine d) = fst (timezone_applied c a))))"
proof -
  have raising: "PreprocessSources c fe s =
      (fe\<lparr>fe_engine := Some (eng\<lparr>knowledge_base := kb'\<rparr>),
          effects := effects fe @
            [Logging DEBUG ''Starting preprocessing.'', Call_PreprocessSources s]\<rparr>,
       Some x)"
    if "fe_engine fe = Some eng"
      "engine_PreprocessSources c s (knowledge_base eng) = (kb', Some e)"
      "class_of e = IOError" "format_exception c e = Inl x"
    using that
    by (simp add: PreprocessSources_eq preprocessing_log_def preprocessing_outcome_def)
  have logging: "PreprocessSources c fe s =
      (fe\<lparr>fe_engine := Some (eng\<lparr>knowledge_base := kb'\<rparr>),
          effects := effects fe @
            [Logging DEBUG ''Starting preprocessing.'', Call_PreprocessSources s,
             Logging ERROR (''Unable to preprocess with error: '' @ formatted)]\<rparr>,
       None)"
    if "fe_engine fe = Some eng"
      "engine_PreprocessSources c s (knowledge_base eng) = (kb', Some e)"
      "class_of e = IOError" "format_exception c e = Inr formatted"
    using that
    by (simp add: PreprocessSources_eq preprocessing_log_def preprocessing_outcome_def)
  have stopped: "snd (ProcessSources c fe a) = Inl x
      \<and> run_effects c fe a = storage_effects c (fe_storage_file_path fe) @
           [Logging DEBUG ''Starting preprocessing.'',
            Call_PreprocessSources (arg_source_path_specs a)]
      \<and> dispatches (run_effects c fe a) = []"
    if h: "validated c fe" "preprocessing_due a" "snd (preprocessed c a) = Some e"
      "class_of e = IOError" "format_exception c e = Inl x"
  proof -
    have "preprocessing_outcome c (snd (preprocessed c a)) = Some x"
      using h by (simp add: preprocessing_outcome_def)
    from ProcessSources_preprocessing_raised [OF h(1) this] h show ?thesis
      by (simp add: run_effects_def preprocessing_effects_def preprocessing_log_def)
  qed
  have continued: "Logging ERROR (''Unable to preprocess with error: '' @ formatted)
        \<in> set (run_effects c fe a)
      \<and> (\<forall>x. snd (ProcessSources c fe a) = Inl x \<longrightarrow>
            GetParsers c (resolved_expression c a) = Inl x
            \<or> GetHasherNamesFromString c (arg_hasher_names_string a) = Inl x
            \<or> uncaught ValueError (snd (timezone_applied c a)) = Some x
            \<or> filter_find_specs c a = Inl x
            \<or> GetParserAndPluginNames c (resolved_expression c a) = Inl x
            \<or> (\<exists>d. dispatches (run_effects c fe a) = [d]
                  \<and> engine_ProcessSources c d = Inl x))
      \<and> ((\<exists>parsers. GetParsers c (resolved_expression c a) = Inr parsers)
          \<and> (\<exists>names. GetHasherNamesFromString c (arg_hasher_names_string a) = Inr names)
          \<and> uncaught ValueError (snd (timezone_applied c a)) = None
          \<and> (\<exists>specs. filter_find_specs c a = Inr specs)
          \<and> (\<exists>names. GetParserAndPluginNames c (resolved_expression c a) = Inr names) \<longrightarrow>
          (\<exists>d. dispatches (run_effects c fe a) = [d]
             \<and> snd (ProcessSources c fe a) = engine_ProcessSources c d
             \<and> knowledge_base (d_engine d) = fst (timezone_applied c a)))"
    if h: "validated c fe" "preprocessing_due a" "snd (preprocessed c a) = Some e"
      "class_of e = IOError" "format_exception c e = Inr formatted"
  proof (cases rule: ProcessSources_run [of c fe a])
    case (invalid x)
    with h(1) show ?thesis
      by (simp add: validated_def)
  next
    case (raised x kb pn hn rest)
    with h show ?thesis
      by (auto simp: run_effects_def raised_by_collaborator_def preprocessing_outcome_def
          preprocessing_effects_def preprocessing_log_def)
  next
    case (dispatched parsers hn ffs names d)
    with h show ?thesis
      by (auto simp: run_effects_def preprocessing_effects_def preprocessing_log_def)
  qed
  from raising logging stopped continued show ?thesis
    by blast
qed


theorem preprocessing_IOError_handler_witness:
  "engine_PreprocessSources example_collaborators [''/evidence/unreadable.dd'']
        (knowledge_base (CreateEngine example_collaborators init True))
     = (example_knowledge_base, Some (Exception IOError
          (''Unable to open: /evidence/pi'' @ [CHR 0xC3, CHR 0xA8] @ ''ce.dd'')))
   \<and> format_exception example_collaborators (Exception IOError
          (''Unable to open: /evidence/pi'' @ [CHR 0xC3, CHR 0xA8] @ ''ce.dd''))
     = Inl (Exception ValueError
          ''UnicodeDecodeError: ascii codec cannot decode byte 0xc3'')
   \<and> PreprocessSources example_collaborators example_built_frontend
        [''/evidence/unreadable.dd'']
     = (example_built_frontend\<lparr>effects :=
          [Logging DEBUG ''Starting preprocessing.'',
           Call_PreprocessSources [''/evidence/unreadable.dd'']]\<rparr>,
        Some (Exception ValueError
          ''UnicodeDecodeError: ascii codec cannot decode byte 0xc3''))
   \<and> validated example_collaborators example_frontend
   \<and> preprocessing_due example_unreadable_arguments
   \<and> snd (ProcessSources example_collaborators example_frontend example_unreadable_arguments)
     = Inl (Exception ValueError
          ''UnicodeDecodeError: ascii codec cannot decode byte 0xc3'')
   \<and> run_effects example_collaborators example_frontend example_unreadable_arguments
     = [appending_warning, Logging DEBUG ''Starting preprocessing.'',
        Call_PreprocessSources [''/evidence/unreadable.dd'']]
   \<and> dispatches (run_effects example_collaborators example_frontend
        example_unreadable_arguments) = []
   \<and> format_exception example_collaborators (Exception IOError ''Unable to read sector'')
     = Inr ''Unable to read sector''
   \<and> snd (PreprocessSources example_collaborators example_built_frontend
        [''/evidence/broken.dd'']) = None
   \<and> Logging ERROR ''Unable to preprocess with error: Unable to read sector''
     \<in> set (run_effects example_collaborators example_frontend example_broken_arguments)
   \<and> length (dispatches
        (run_effects example_collaborators example_frontend example_broken_arguments)) = 1
   \<and> platform (knowledge_base (d_engine (hd (dispatches
        (run_effects example_collaborators example_frontend example_broken_arguments)))))
     = Some ''Linux''"
proof -
  let ?u = "Exception IOError
      (''Unable to open: /evidence/pi'' @ [CHR 0xC3, CHR 0xA8] @ ''ce.dd'')"
  let ?x = "Exception ValueError
      ''UnicodeDecodeError: ascii codec cannot decode byte 0xc3''"
  let ?e = "Exception IOError ''Unable to read sector''"
  have a: "fe_engine example_built_frontend = Some (CreateEngine example_collaborators init True)"
    "effects example_built_frontend = []"
    by (simp_all add: example_built_frontend_def init_def)
  have bu: "engine_PreprocessSources example_collaborators [''/evidence/unreadable.dd'']
        (knowledge_base (CreateEngine example_collaborators init True))
     = (example_knowledge_base, Some ?u)"
    by code_simp
  have fu: "format_exception example_collaborators ?u = Inl ?x"
    by code_simp
  have b: "engine_PreprocessSources example_collaborators [''/evidence/broken.dd'']
        (knowledge_base (CreateEngine example_collaborators init True))
     = (example_knowledge_base\<lparr>platform := Some ''Linux''\<rparr>, Some ?e)"
    by code_simp
  have f: "format_exception example_collaborators ?e = Inr ''Unable to read sector''"
    by code_simp
  have cls: "class_of ?e = IOError" "class_of ?u = IOError"
    by simp_all
  have v: "validated example_collaborators example_frontend"
    by code_simp
  have du: "preprocessing_due example_unreadable_arguments"
    "snd (preprocessed example_collaborators example_unreadable_arguments) = Some ?u"
    "arg_source_path_specs example_unreadable_arguments = [''/evidence/unreadable.dd'']"
    "storage_effects example_collaborators (fe_storage_file_path example_frontend)
       = [appending_warning]"
    by code_simp+
  have d: "preprocessing_due example_broken_arguments"
    "snd (preprocessed example_collaborators example_broken_arguments) = Some ?e"
    by code_simp+
  have g: "GetParsers example_collaborators
      (resolved_expression example_collaborators example_broken_arguments)
      = Inr [(''syslog'', ''syslog'')]"
    "GetHasherNamesFromString example_collaborators
      (arg_hasher_names_string example_broken_arguments) = Inr []"
    "uncaught ValueError (snd (timezone_applied example_collaborators
      example_broken_arguments)) = None"
    "filter_find_specs example_collaborators example_broken_arguments = Inr None"
    "GetParserAndPluginNames example_collaborators
      (resolved_expression example_collaborators example_broken_arguments)
      = Inr [''syslog'', ''syslog/cron'']"
    by code_simp+
  have k: "platform (fst (timezone_applied example_collaborators example_broken_arguments))
      = Some ''Linux''"
    by code_simp
  note mu = preprocessing_IOError_handler
    [where fe = example_built_frontend and c = example_collaborators
       and eng = "CreateEngine example_collaborators init True"
       and s = "[''/evidence/unreadable.dd'']" and kb' = example_knowledge_base
       and e = ?u and x = ?x and a = example_unreadable_arguments, THEN conjunct1]
  note ru = preprocessing_IOError_handler
    [where fe = example_frontend and c = example_collaborators
       and e = ?u and x = ?x and a = example_unreadable_arguments,
     THEN conjunct2, THEN conjunct2, THEN conjunct1]
  note m = preprocessing_IOError_handler
    [where fe = example_built_frontend and c = example_collaborators
       and eng = "CreateEngine example_collaborators init True"
       and s = "[''/evidence/broken.dd'']"
       and kb' = "example_knowledge_base\<lparr>platform := Some ''Linux''\<rparr>"
       and e = ?e and formatted = "''Unable to read sector''" and a = example_broken_arguments,
     THEN conjunct2, THEN conjunct1]
  note r = preprocessing_IOError_handler
    [where fe = example_frontend and c = example_collaborators
       and e = ?e and formatted = "''Unable to read sector''" and a = example_broken_arguments,
     THEN conjunct2, THEN conjunct2, THEN conjunct2]
  have same: "CreateEngine example_collaborators init True
      \<lparr>knowledge_base := example_knowledge_base\<rparr> = CreateEngine example_collaborators init True"
    by code_simp
  have 1: "PreprocessSources example_collaborators example_built_frontend
        [''/evidence/unreadable.dd'']
     = (example_built_frontend\<lparr>effects :=
          [Logging DEBUG ''Starting preprocessing.'',
           Call_PreprocessSources [''/evidence/unreadable.dd'']]\<rparr>, Some ?x)"
    using mu a bu cls(2) fu same by (simp add: example_built_frontend_def)
  have "validated example_collaborators example_frontend
      \<and> preprocessing_due example_unreadable_arguments
      \<and> snd (preprocessed example_collaborators example_unreadable_arguments) = Some ?u
      \<and> class_of ?u = IOError \<and> format_exception example_collaborators ?u = Inl ?x"
    using v du(1,2) cls(2) fu by blast
  note stopped = ru [THEN mp, OF this]
  have 2:
    "snd (ProcessSources example_collaborators example_frontend example_unreadable_arguments)
       = Inl ?x"
    "dispatches (run_effects example_collaborators example_frontend
        example_unreadable_arguments) = []"
    by (rule stopped [THEN conjunct1], rule stopped [THEN conjunct2, THEN conjunct2])
  have 5: "run_effects example_collaborators example_frontend example_unreadable_arguments
     = [appending_warning, Logging DEBUG ''Starting preprocessing.'',
        Call_PreprocessSources [''/evidence/unreadable.dd'']]"
    using stopped [THEN conjunct2, THEN conjunct1] du(3,4) by simp
  have 3: "snd (PreprocessSources example_collaborators example_built_frontend
        [''/evidence/broken.dd'']) = None"
    using m a b cls(1) f by simp
  from r v d cls(1) f have reached:
    "Logging ERROR (''Unable to preprocess with error: '' @ ''Unable to read sector'')
        \<in> set (run_effects example_collaborators example_frontend example_broken_arguments)"
    "\<exists>d. dispatches (run_effects example_collaborators example_frontend
          example_broken_arguments) = [d]
       \<and> snd (ProcessSources example_collaborators example_frontend example_broken_arguments)
           = engine_ProcessSources example_collaborators d
       \<and> knowledge_base (d_engine d)
           = fst (timezone_applied example_collaborators example_broken_arguments)"
    using g by blast+
  from reached(2) k have 4: "length (dispatches
        (run_effects example_collaborators example_frontend example_broken_arguments)) = 1"
    "platform (knowledge_base (d_engine (hd (dispatches
        (run_effects example_collaborators example_frontend example_broken_arguments)))))
     = Some ''Linux''"
    by auto
  from reached(1) have 6:
    "Logging ERROR ''Unable to preprocess with error: Unable to read sector''
       \<in> set (run_effects example_collaborators example_frontend example_broken_arguments)"
    by simp
  from bu fu 1 v du(1) 2 5 f 3 6 4 show ?thesis
    by blast
qed

section \<open>The session\<close>

text \<open>
  Claim C2. In every dispatch of a run, the session handed to the storage writer lists as
  enabled parser names what \<open>GetParserAndPluginNames\<close> gives for the resolved expression,
  records the resolved expression as its parser filter expression, and the engine is
  passed the same resolved expression. The resolved expression is the caller's when that
  is non-empty, and otherwise the preset derived from the knowledge base after
  preprocessing.
\<close>

theorem session_records_resolved_expression:
  "(\<forall>d \<in> set (dispatches (run_effects c fe a)).
      GetParserAndPluginNames c (resolved_expression c a)
        = Inr (enabled_parser_names (writer_session (d_storage_writer d)))
      \<and> parser_filter_expression (writer_session (d_storage_writer d))
        = resolved_expression c a
      \<and> d_parser_filter_expression d = resolved_expression c a)
   \<and> (truthy (arg_parser_filter_expression a) \<longrightarrow>
        resolved_expression c a = arg_parser_filter_expression a)
   \<and> (\<not> truthy (arg_parser_filter_expression a) \<longrightarrow>
        resolved_expression c a =
          GetParserFilterPreset (platform (fst (preprocessed c a)))
            (GetValue (fst (preprocessed c a)) ''osversion''))"
proof -
  have "\<forall>d \<in> set (dispatches (run_effects c fe a)).
      GetParserAndPluginNames c (resolved_expression c a)
        = Inr (enabled_parser_names (writer_session (d_storage_writer d)))
      \<and> parser_filter_expression (writer_session (d_storage_writer d))
        = resolved_expression c a
      \<and> d_parser_filter_expression d = resolved_expression c a"
    by (cases rule: ProcessSources_run [of c fe a])
      (auto simp: run_effects_def created_session_def)
  then show ?thesis
    by (simp add: resolved_expression_def)
qed

theorem session_records_resolved_expression_witness:
  "\<not> truthy (arg_parser_filter_expression example_arguments)
   \<and> GetValue (fst (preprocessed example_collaborators example_arguments)) ''osversion''
       = Some ''Windows XP Professional''
   \<and> resolved_expression example_collaborators example_arguments = Some ''winxp''
   \<and> dispatches (run_effects example_collaborators example_frontend example_arguments) \<noteq> []
   \<and> d_parser_filter_expression (hd (dispatches
         (run_effects example_collaborators example_frontend example_arguments)))
       = Some ''winxp''
   \<and> parser_filter_expression (writer_session (d_storage_writer (hd (dispatches
         (run_effects example_collaborators example_frontend example_arguments)))))
       = Some ''winxp''
   \<and> enabled_parser_names (writer_session (d_storage_writer (hd (dispatches
         (run_effects example_collaborators example_frontend example_arguments)))))
       = [''winevt'', ''winreg'', ''winreg/default'']
   \<and> truthy (arg_parser_filter_expression example_linux_arguments)
   \<and> resolved_expression example_collaborators example_linux_arguments = Some ''linux''"
proof -
  have l: "truthy (arg_parser_filter_expression example_linux_arguments)"
    "arg_parser_filter_expression example_linux_arguments = Some ''linux''"
    by code_simp+
  note r' = session_records_resolved_expression
    [of example_collaborators example_frontend example_linux_arguments]
  have t: "\<not> truthy (arg_parser_filter_expression example_arguments)"
    by code_simp
  have o: "GetValue (fst (preprocessed example_collaborators example_arguments)) ''osversion''
       = Some ''Windows XP Professional''"
    by code_simp
  have p: "GetParserFilterPreset
      (platform (fst (preprocessed example_collaborators example_arguments)))
      (Some ''Windows XP Professional'') = Some ''winxp''"
    by code_simp
  have g: "GetParserAndPluginNames example_collaborators (Some ''winxp'')
      = Inr [''winevt'', ''winreg'', ''winreg/default'']"
    by code_simp
  have n: "dispatches (run_effects example_collaborators example_frontend example_arguments)
      \<noteq> []"
    by code_simp
  note r = session_records_resolved_expression
    [of example_collaborators example_frontend example_arguments]
  from r [THEN conjunct1, THEN bspec, OF hd_in_set [OF n]] r t o p g n r' l
  show ?thesis
    by simp
qed

lemma filter_expression_invariant_ProcessSources:
  assumes "fe_filter_expression fe = None"
    and "\<forall>d \<in> set (dispatches (effects fe)).
      filter_expression (writer_session (d_storage_writer d)) = None"
  shows "fe_filter_expression (fst (ProcessSources c fe a)) = None
    \<and> (\<forall>d \<in> set (dispatches (effects (fst (ProcessSources c fe a)))).
          filter_expression (writer_session (d_storage_writer d)) = None)"
  using assms
  by (cases rule: ProcessSources_run [of c fe a]) (auto simp: created_session_def)

lemma filter_expression_invariant_call_method:
  assumes "fe_filter_expression fe = None"
    and "\<forall>d \<in> set (dispatches (effects fe)).
      filter_expression (writer_session (d_storage_writer d)) = None"
  shows "fe_filter_expression (call_method fe cm) = None
    \<and> (\<forall>d \<in> set (dispatches (effects (call_method fe cm))).
          filter_expression (writer_session (d_storage_writer d)) = None)"
proof (cases cm)
  case (Pair c m)
  show ?thesis
    using assms filter_expression_invariant_ProcessSources [OF assms]
    unfolding Pair
    by (cases m)
      (simp_all add: DisableProfiling_def EnableProfiling_def SetDebugMode_def
        SetShowMemoryInformation_def SetStorageFile_def SetTextPrepend_def SetUseZeroMQ_def)
qed

lemma filter_expression_invariant_foldl:
  assumes "fe_filter_expression fe = None"
    and "\<forall>d \<in> set (dispatches (effects fe)).
      filter_expression (writer_session (d_storage_writer d)) = None"
  shows "fe_filter_expression (foldl call_method fe calls) = None
    \<and> (\<forall>d \<in> set (dispatches (effects (foldl call_method fe calls))).
          filter_expression (writer_session (d_storage_writer d)) = None)"
  using assms
proof (induction calls arbitrary: fe)
  case Nil
  then show ?case by simp
next
  case (Cons cm calls)
  from filter_expression_invariant_call_method [OF Cons.prems, of cm]
  have "fe_filter_expression (call_method fe cm) = None"
    and "\<forall>d \<in> set (dispatches (effects (call_method fe cm))).
      filter_expression (writer_session (d_storage_writer d)) = None"
    by simp_all
  from Cons.IH [OF this] show ?case
    by simp
qed

text \<open>
  Claim C9. After the constructor and any sequence of calls of public methods, the
  attribute \<^verbatim>\<open>_filter_expression\<close> is None, and the session of every dispatch made so far,
  and of every dispatch of a further run, has the filter expression None.
\<close>

theorem session_filter_expression_is_None:
  "fe_filter_expression (after_calls calls) = None
   \<and> (\<forall>d \<in> set (dispatches (effects (fst (ProcessSources c (after_calls calls) a)))).
        filter_expression (writer_session (d_storage_writer d)) = None)"
proof -
  have "fe_filter_expression init = None"
    and "\<forall>d \<in> set (dispatches (effects init)).
      filter_expression (writer_session (d_storage_writer d)) = None"
    by (simp_all add: init_def)
  from filter_expression_invariant_foldl [OF this, of calls]
  have inv: "fe_filter_expression (after_calls calls) = None"
    "\<forall>d \<in> set (dispatches (effects (after_calls calls))).
      filter_expression (writer_session (d_storage_writer d)) = None"
    by (simp_all add: after_calls_def)
  from filter_expression_invariant_ProcessSources [OF inv, of c a] inv(1)
  show ?thesis
    by simp
qed

theorem session_filter_expression_is_None_witness:
  "fe_filter_expression (after_calls example_calls) = None
   \<and> dispatches (effects (fst (ProcessSources example_collaborators
        (after_calls example_calls) example_arguments))) \<noteq> []
   \<and> filter_expression (writer_session (d_storage_writer (hd (dispatches (effects (fst
        (ProcessSources example_collaborators (after_calls example_calls)
           example_arguments))))))) = None
   \<and> filter_expression (writer_session (d_storage_writer (last (dispatches (effects (fst
        (ProcessSources example_collaborators (after_calls example_calls)
           example_arguments))))))) = None"
proof -
  have n: "dispatches (effects (fst (ProcessSources example_collaborators
        (after_calls example_calls) example_arguments))) \<noteq> []"
    by code_simp
  note r = session_filter_expression_is_None
    [where calls = example_calls and c = example_collaborators and a = example_arguments]
  from r [THEN conjunct2, THEN bspec, OF hd_in_set [OF n]]
    r [THEN conjunct2, THEN bspec, OF last_in_set [OF n]] r n
  show ?thesis
    by simp
qed

section \<open>The time zone\<close>

text \<open>
  Claim C7. \<open>SetTimezone\<close> calls \<open>SetTimezone\<close> of the engine's knowledge base once and
  stores the knowledge base the call returns. The string it passes is the value of
  \<^verbatim>\<open>time_zone_str\<close> in the knowledge base when that is non-empty; otherwise the caller's
  time zone when that is non-empty; otherwise "UTC". In a run of \<open>ProcessSources\<close> every
  such call is with the string so selected from the knowledge base after the
  preprocessing step and the caller's argument, and the engine of every dispatch carries
  the knowledge base that this one call returned.
\<close>

theorem timezone_precedence:
  "(fe_engine fe = Some eng
      \<and> GetValue (knowledge_base eng) ''time_zone_str'' = Some k \<and> k \<noteq> [] \<longrightarrow>
    fe_engine (fst (SetTimezone c fe tz))
      = Some (eng\<lparr>knowledge_base := fst (knowledge_base_SetTimezone c k (knowledge_base eng))\<rparr>)
    \<and> timezone_calls (effects (fst (SetTimezone c fe tz))) = timezone_calls (effects fe) @ [k])
   \<and> (fe_engine fe = Some eng
      \<and> \<not> truthy (GetValue (knowledge_base eng) ''time_zone_str'')
      \<and> tz = Some t \<and> t \<noteq> [] \<longrightarrow>
    fe_engine (fst (SetTimezone c fe tz))
      = Some (eng\<lparr>knowledge_base := fst (knowledge_base_SetTimezone c t (knowledge_base eng))\<rparr>)
    \<and> timezone_calls (effects (fst (SetTimezone c fe tz))) = timezone_calls (effects fe) @ [t])
   \<and> (fe_engine fe = Some eng
      \<and> \<not> truthy (GetValue (knowledge_base eng) ''time_zone_str'') \<and> \<not> truthy tz \<longrightarrow>
    fe_engine (fst (SetTimezone c fe tz))
      = Some (eng\<lparr>knowledge_base :=
          fst (knowledge_base_SetTimezone c ''UTC'' (knowledge_base eng))\<rparr>)
    \<and> timezone_calls (effects (fst (SetTimezone c fe tz)))
      = timezone_calls (effects fe) @ [''UTC''])
   \<and> (\<forall>z \<in> set (timezone_calls (run_effects c fe a)).
        (GetValue (fst (preprocessed c a)) ''time_zone_str'' = Some k \<and> k \<noteq> [] \<longrightarrow> z = k)
        \<and> (\<not> truthy (GetValue (fst (preprocessed c a)) ''time_zone_str'')
            \<and> arg_timezone a = Some t \<and> t \<noteq> [] \<longrightarrow> z = t)
        \<and> (\<not> truthy (GetValue (fst (preprocessed c a)) ''time_zone_str'')
            \<and> \<not> truthy (arg_timezone a) \<longrightarrow> z = ''UTC''))
   \<and> (\<forall>d \<in> set (dispatches (run_effects c fe a)).
        (GetValue (fst (preprocessed c a)) ''time_zone_str'' = Some k \<and> k \<noteq> [] \<longrightarrow>
           timezone_calls (run_effects c fe a) = [k]
           \<and> knowledge_base (d_engine d)
             = fst (knowledge_base_SetTimezone c k (fst (preprocessed c a))))
        \<and> (\<not> truthy (GetValue (fst (preprocessed c a)) ''time_zone_str'')
            \<and> arg_timezone a = Some t \<and> t \<noteq> [] \<longrightarrow>
           timezone_calls (run_effects c fe a) = [t]
           \<and> knowledge_base (d_engine d)
             = fst (knowledge_base_SetTimezone c t (fst (preprocessed c a))))
        \<and> (\<not> truthy (GetValue (fst (preprocessed c a)) ''time_zone_str'')
            \<and> \<not> truthy (arg_timezone a) \<longrightarrow>
           timezone_calls (run_effects c fe a) = [''UTC'']
           \<and> knowledge_base (d_engine d)
             = fst (knowledge_base_SetTimezone c ''UTC'' (fst (preprocessed c a)))))"
proof -
  have by_call: "fe_engine (fst (SetTimezone c fe tz))
      = Some (eng\<lparr>knowledge_base := fst (knowledge_base_SetTimezone c z (knowledge_base eng))\<rparr>)
    \<and> timezone_calls (effects (fst (SetTimezone c fe tz))) = timezone_calls (effects fe) @ [z]"
    if "fe_engine fe = Some eng" "selected_timezone (knowledge_base eng) tz = z" for z
    using that by (simp add: SetTimezone_eq Let_def)
  have calls: "\<forall>z \<in> set (timezone_calls (run_effects c fe a)).
      z = selected_timezone (fst (preprocessed c a)) (arg_timezone a)"
    by (cases rule: ProcessSources_run [of c fe a])
      (auto simp: run_effects_def)
  have dispatched: "\<forall>d \<in> set (dispatches (run_effects c fe a)).
      timezone_calls (run_effects c fe a)
        = [selected_timezone (fst (preprocessed c a)) (arg_timezone a)]
      \<and> knowledge_base (d_engine d)
        = fst (knowledge_base_SetTimezone c
            (selected_timezone (fst (preprocessed c a)) (arg_timezone a))
            (fst (preprocessed c a)))"
    by (cases rule: ProcessSources_run [of c fe a])
      (auto simp: run_effects_def timezone_applied_def)
  let ?K = "fst (preprocessed c a)"
  note on_call = selected_timezone_cases [where kb = "knowledge_base eng" and tz = tz]
  note on_run = selected_timezone_cases [where kb = ?K and tz = "arg_timezone a"]
  have 1: "fe_engine fe = Some eng
      \<and> GetValue (knowledge_base eng) ''time_zone_str'' = Some k \<and> k \<noteq> [] \<longrightarrow>
    fe_engine (fst (SetTimezone c fe tz))
      = Some (eng\<lparr>knowledge_base := fst (knowledge_base_SetTimezone c k (knowledge_base eng))\<rparr>)
    \<and> timezone_calls (effects (fst (SetTimezone c fe tz))) = timezone_calls (effects fe) @ [k]"
    using by_call [of k] on_call(1) [of k] by blast
  have 2: "fe_engine fe = Some eng
      \<and> \<not> truthy (GetValue (knowledge_base eng) ''time_zone_str'')
      \<and> tz = Some t \<and> t \<noteq> [] \<longrightarrow>
    fe_engine (fst (SetTimezone c fe tz))
      = Some (eng\<lparr>knowledge_base := fst (knowledge_base_SetTimezone c t (knowledge_base eng))\<rparr>)
    \<and> timezone_calls (effects (fst (SetTimezone c fe tz))) = timezone_calls (effects fe) @ [t]"
    using by_call [of t] on_call(2) [of t] by blast
  have 3: "fe_engine fe = Some eng
      \<and> \<not> truthy (GetValue (knowledge_base eng) ''time_zone_str'') \<and> \<not> truthy tz \<longrightarrow>
    fe_engine (fst (SetTimezone c fe tz))
      = Some (eng\<lparr>knowledge_base :=
          fst (knowledge_base_SetTimezone c ''UTC'' (knowledge_base eng))\<rparr>)
    \<and> timezone_calls (effects (fst (SetTimezone c fe tz)))
      = timezone_calls (effects fe) @ [''UTC'']"
    using by_call [of "''UTC''"] on_call(3) by blast
  have 4: "\<forall>z \<in> set (timezone_calls (run_effects c fe a)).
        (GetValue ?K ''time_zone_str'' = Some k \<and> k \<noteq> [] \<longrightarrow> z = k)
        \<and> (\<not> truthy (GetValue ?K ''time_zone_str'')
            \<and> arg_timezone a = Some t \<and> t \<noteq> [] \<longrightarrow> z = t)
        \<and> (\<not> truthy (GetValue ?K ''time_zone_str'')
            \<and> \<not> truthy (arg_timezone a) \<longrightarrow> z = ''UTC'')"
  proof (intro ballI conjI impI)
    fix z assume z: "z \<in> set (timezone_calls (run_effects c fe a))"
    note s = calls [THEN bspec, OF z]
    { assume "GetValue ?K ''time_zone_str'' = Some k \<and> k \<noteq> []"
      then show "z = k" using s on_run(1) [of k] by simp }
    { assume "\<not> truthy (GetValue ?K ''time_zone_str'')
            \<and> arg_timezone a = Some t \<and> t \<noteq> []"
      then show "z = t" using s on_run(2) [of t] by simp }
    { assume "\<not> truthy (GetValue ?K ''time_zone_str'') \<and> \<not> truthy (arg_timezone a)"
      then show "z = ''UTC''" using s on_run(3) by simp }
  qed
  have 5: "\<forall>d \<in> set (dispatches (run_effects c fe a)).
        (GetValue ?K ''time_zone_str'' = Some k \<and> k \<noteq> [] \<longrightarrow>
           timezone_calls (run_effects c fe a) = [k]
           \<and> knowledge_base (d_engine d) = fst (knowledge_base_SetTimezone c k ?K))
        \<and> (\<not> truthy (GetValue ?K ''time_zone_str'')
            \<and> arg_timezone a = Some t \<and> t \<noteq> [] \<longrightarrow>
           timezone_calls (run_effects c fe a) = [t]
           \<and> knowledge_base (d_engine d) = fst (knowledge_base_SetTimezone c t ?K))
        \<and> (\<not> truthy (GetValue ?K ''time_zone_str'')
            \<and> \<not> truthy (arg_timezone a) \<longrightarrow>
           timezone_calls (run_effects c fe a) = [''UTC'']
           \<and> knowledge_base (d_engine d) = fst (knowledge_base_SetTimezone c ''UTC'' ?K))"
  proof (intro ballI conjI impI)
    fix d assume d: "d \<in> set (dispatches (run_effects c fe a))"
    note s = dispatched [THEN bspec, OF d]
    { assume h: "GetValue ?K ''time_zone_str'' = Some k \<and> k \<noteq> []"
      then show "timezone_calls (run_effects c fe a) = [k]"
        using s on_run(1) [of k] by simp
      from h show "knowledge_base (d_engine d) = fst (knowledge_base_SetTimezone c k ?K)"
        using s on_run(1) [of k] by simp }
    { assume h: "\<not> truthy (GetValue ?K ''time_zone_str'')
            \<and> arg_timezone a = Some t \<and> t \<noteq> []"
      then show "timezone_calls (run_effects c fe a) = [t]"
        using s on_run(2) [of t] by simp
      from h show "knowledge_base (d_engine d) = fst (knowledge_base_SetTimezone c t ?K)"
        using s on_run(2) [of t] by simp }
    { assume h: "\<not> truthy (GetValue ?K ''time_zone_str'') \<and> \<not> truthy (arg_timezone a)"
      then show "timezone_calls (run_effects c fe a) = [''UTC'']"
        using s on_run(3) by simp
      from h show "knowledge_base (d_engine d) = fst (knowledge_base_SetTimezone c ''UTC'' ?K)"
        using s on_run(3) by simp }
  qed
  from 1 2 3 4 5 show ?thesis
    by (intro conjI)
qed

theorem timezone_precedence_witness:
  "fe_engine example_preprocessed_frontend = Some example_engine
   \<and> GetValue (knowledge_base example_engine) ''time_zone_str''
       = Some ''W. Europe Standard Time''
   \<and> timezone_calls (effects (fst (SetTimezone example_collaborators
         example_preprocessed_frontend (Some ''Europe/Amsterdam''))))
       = [''W. Europe Standard Time'']
   \<and> fe_engine example_built_frontend = Some (CreateEngine example_collaborators init True)
   \<and> \<not> truthy (GetValue (knowledge_base (CreateEngine example_collaborators init True))
         ''time_zone_str'')
   \<and> timezone_calls (effects (fst (SetTimezone example_collaborators
         example_built_frontend (Some ''Europe/Amsterdam'')))) = [''Europe/Amsterdam'']
   \<and> map_option (\<lambda>eng. timezone_zone (knowledge_base eng))
        (fe_engine (fst (SetTimezone example_collaborators example_built_frontend
           (Some ''Europe/Amsterdam'')))) = Some ''Europe/Amsterdam''
   \<and> \<not> truthy None
   \<and> timezone_calls (effects (fst (SetTimezone example_collaborators
         example_built_frontend None))) = [''UTC'']
   \<and> dispatches (run_effects example_collaborators example_frontend example_arguments) \<noteq> []
   \<and> timezone_calls (run_effects example_collaborators example_frontend example_arguments)
       = [''W. Europe Standard Time'']
   \<and> hd (timezone_calls (run_effects example_collaborators example_frontend
         example_arguments)) = ''W. Europe Standard Time''
   \<and> dispatches (run_effects example_collaborators example_frontend example_file_arguments)
       \<noteq> []
   \<and> timezone_calls (run_effects example_collaborators example_frontend
         example_file_arguments) = [''Europe/Amsterdam'']
   \<and> timezone_zone (knowledge_base (d_engine (hd (dispatches
         (run_effects example_collaborators example_frontend example_file_arguments)))))
       = ''Europe/Amsterdam''"
proof -
  let ?W = "''W. Europe Standard Time''"
  let ?A = "''Europe/Amsterdam''"
  let ?new = "CreateEngine example_collaborators init True"
  have a: "fe_engine example_preprocessed_frontend = Some example_engine"
    "timezone_calls (effects example_preprocessed_frontend) = []"
    by (simp_all add: example_preprocessed_frontend_def init_def timezone_calls_def)
  have k: "GetValue (knowledge_base example_engine) ''time_zone_str'' = Some ?W"
    by code_simp
  have b: "fe_engine example_built_frontend = Some ?new"
    "timezone_calls (effects example_built_frontend) = []"
    by (simp_all add: example_built_frontend_def init_def timezone_calls_def)
  have u: "\<not> truthy (GetValue (knowledge_base ?new) ''time_zone_str'')"
    "\<not> truthy None"
    by code_simp+
  have zone: "timezone_zone (fst (knowledge_base_SetTimezone example_collaborators ?A
      (knowledge_base ?new))) = ?A"
    by code_simp
  have n: "dispatches (run_effects example_collaborators example_frontend example_arguments)
      \<noteq> []"
    "timezone_calls (run_effects example_collaborators example_frontend example_arguments)
      \<noteq> []"
    "dispatches (run_effects example_collaborators example_frontend example_file_arguments)
      \<noteq> []"
    by code_simp+
  have p: "GetValue (fst (preprocessed example_collaborators example_arguments))
      ''time_zone_str'' = Some ?W"
    "\<not> truthy (GetValue (fst (preprocessed example_collaborators example_file_arguments))
      ''time_zone_str'')"
    "arg_timezone example_file_arguments = Some ?A"
    "timezone_zone (fst (knowledge_base_SetTimezone example_collaborators ?A
       (fst (preprocessed example_collaborators example_file_arguments)))) = ?A"
    by code_simp+
  note r1 = timezone_precedence
    [where fe = example_preprocessed_frontend and eng = example_engine and k = ?W
       and tz = "Some ?A" and c = example_collaborators, THEN conjunct1, THEN mp]
  note r2 = timezone_precedence
    [where fe = example_built_frontend and eng = ?new and t = ?A
       and tz = "Some ?A" and c = example_collaborators,
     THEN conjunct2, THEN conjunct1, THEN mp]
  note r3 = timezone_precedence
    [where fe = example_built_frontend and eng = ?new
       and tz = None and c = example_collaborators,
     THEN conjunct2, THEN conjunct2, THEN conjunct1, THEN mp]
  note r4 = timezone_precedence
    [where fe = example_frontend and a = example_arguments and k = ?W
       and c = example_collaborators,
     THEN conjunct2, THEN conjunct2, THEN conjunct2, THEN conjunct1, THEN bspec,
     OF hd_in_set [OF n(2)], THEN conjunct1, THEN mp]
  note r5 = timezone_precedence
    [where fe = example_frontend and a = example_arguments and k = ?W
       and c = example_collaborators,
     THEN conjunct2, THEN conjunct2, THEN conjunct2, THEN conjunct2, THEN bspec,
     OF hd_in_set [OF n(1)], THEN conjunct1, THEN mp]
  note r6 = timezone_precedence
    [where fe = example_frontend and a = example_file_arguments and t = ?A
       and c = example_collaborators,
     THEN conjunct2, THEN conjunct2, THEN conjunct2, THEN conjunct2, THEN bspec,
     OF hd_in_set [OF n(3)], THEN conjunct2, THEN conjunct1, THEN mp]
  have 1: "timezone_calls (effects (fst (SetTimezone example_collaborators
         example_preprocessed_frontend (Some ?A)))) = [?W]"
    using r1 a k by simp
  have 2: "timezone_calls (effects (fst (SetTimezone example_collaborators
         example_built_frontend (Some ?A)))) = [?A]"
    "map_option (\<lambda>eng. timezone_zone (knowledge_base eng))
        (fe_engine (fst (SetTimezone example_collaborators example_built_frontend
           (Some ?A)))) = Some ?A"
    using r2 b u(1) zone by simp_all
  have 3: "timezone_calls (effects (fst (SetTimezone example_collaborators
         example_built_frontend None))) = [''UTC'']"
    using r3 b u by simp
  have 4: "hd (timezone_calls (run_effects example_collaborators example_frontend
         example_arguments)) = ?W"
    using r4 p(1) by simp
  have 5: "timezone_calls (run_effects example_collaborators example_frontend
      example_arguments) = [?W]"
    using r5 p(1) by simp
  have 6: "timezone_calls (run_effects example_collaborators example_frontend
         example_file_arguments) = [?A]"
    "timezone_zone (knowledge_base (d_engine (hd (dispatches
         (run_effects example_collaborators example_frontend example_file_arguments)))))
       = ?A"
    using r6 p(2,3,4) by simp_all
  from a(1) k 1 b(1) u 2 3 n(1,3) 4 5 6 show ?thesis
    by blast
qed




end
